theory Spec2Isabelle
  imports Complex_Main "HOL-Library.AList"
begin

section \<open>Untyped key/value structures and validation results\<close>

text \<open>
  Both modules of the repository are pydantic (version 2) model declarations. What the
  declarations mean is fixed by two operations every such model has: \<^verbatim>\<open>model_validate\<close>
  (the validate-and-construct of the specification; calling the class with keyword
  arguments validates the same dictionary) and \<^verbatim>\<open>model_dump\<close> (serialize).

  The untyped input is a JSON-compatible Python value. A dictionary is an association
  list; the validators read it through \<open>map_of\<close> and through the set of its keys only,
  and \<open>AList.update\<close> is the assignment \<^verbatim>\<open>d[k] = v\<close>. A \<^verbatim>\<open>str\<close> is
  a \<open>string\<close>, one \<open>char\<close> per character, so that \<open>length\<close> is the character count
  that \<^verbatim>\<open>min_length\<close> and \<^verbatim>\<open>max_length\<close> bound. An \<^verbatim>\<open>int\<close> is unbounded. A finite
  \<^verbatim>\<open>float\<close> is carried by its exact value, a rational number; the schemas never compute
  with it.
\<close>

datatype pyval =
    PNone
  | PBool bool
  | PInt int
  | PFloat rat
  | PStr string
  | PList "pyval list"
  | PDict "(string \<times> pyval) list"

text \<open>The kinds of error a \<^verbatim>\<open>ValidationError\<close> lists, each with the path of its field.\<close>

datatype error_type =
    missing
  | model_type
  | string_type
  | string_too_short
  | string_too_long
  | enum_error
  | literal_error
  | int_type
  | int_parsing
  | float_type
  | float_parsing
  | extra_forbidden
  | frozen_instance

type_synonym verror = "string list \<times> error_type"

type_synonym 'a result = "verror list + 'a"

definition fail :: "error_type \<Rightarrow> 'a result" where
  "fail t = Inl [([], t)]"

text \<open>
  A model validator visits every declared field and collects the errors of all of them;
  the instance is built only when there is none. \<open>ap\<close> adds one validated field to the
  constructor applied so far.
\<close>

fun ap :: "('a \<Rightarrow> 'b) result \<Rightarrow> 'a result \<Rightarrow> 'b result" where
  "ap (Inr f) (Inr x) = Inr (f x)"
| "ap (Inr f) (Inl es) = Inl es"
| "ap (Inl es) (Inr x) = Inl es"
| "ap (Inl es) (Inl es') = Inl (es @ es')"

definition at_loc :: "string \<Rightarrow> 'a result \<Rightarrow> 'a result" where
  "at_loc k r = (case r of Inl es \<Rightarrow> Inl (map (\<lambda>(loc, t). (k # loc, t)) es) | Inr x \<Rightarrow> Inr x)"

text \<open>A field declared without a default (\<^verbatim>\<open>Field(...)\<close>, or a bare annotation).\<close>

definition required :: "(string \<rightharpoonup> pyval) \<Rightarrow> string \<Rightarrow> (pyval \<Rightarrow> 'a result) \<Rightarrow> 'a result" where
  "required m k val = (case m k of None \<Rightarrow> Inl [([k], missing)] | Some v \<Rightarrow> at_loc k (val v))"

text \<open>A field declared with a default: the default is taken as it is when the key is absent.\<close>

definition with_default :: "(string \<rightharpoonup> pyval) \<Rightarrow> string \<Rightarrow> (pyval \<Rightarrow> 'a result) \<Rightarrow> 'a \<Rightarrow> 'a result" where
  "with_default m k val dflt = (case m k of None \<Rightarrow> Inr dflt | Some v \<Rightarrow> at_loc k (val v))"

text \<open>
  \<^verbatim>\<open>ConfigDict(extra='forbid')\<close>: every key of the input that is not a declared field is an
  error of its own, listed after the errors of the fields.
\<close>

definition extra_errors :: "string list \<Rightarrow> (string \<times> pyval) list \<Rightarrow> verror list" where
  "extra_errors declared d =
     map (\<lambda>k. ([k], extra_forbidden)) (filter (\<lambda>k. k \<notin> set declared) (map fst d))"

definition forbid_extra :: "string list \<Rightarrow> (string \<times> pyval) list \<Rightarrow> 'a result \<Rightarrow> 'a result" where
  "forbid_extra declared d r =
     (case extra_errors declared d of
        [] \<Rightarrow> r
      | e # es \<Rightarrow> Inl ((case r of Inl es' \<Rightarrow> es' | Inr _ \<Rightarrow> []) @ e # es))"

subsection \<open>Validators of the field types\<close>

text \<open>\<^verbatim>\<open>str\<close>: of the JSON-compatible values only a string is one.\<close>

fun validate_str :: "pyval \<Rightarrow> string result" where
  "validate_str (PStr s) = Inr s"
| "validate_str _ = fail string_type"

text \<open>\<^verbatim>\<open>Field(min_length=lo, max_length=hi)\<close> on a \<^verbatim>\<open>str\<close>; \<open>None\<close> is no upper bound.\<close>

definition validate_str_len :: "nat \<Rightarrow> nat option \<Rightarrow> pyval \<Rightarrow> string result" where
  "validate_str_len lo hi v =
     (case validate_str v of
        Inl es \<Rightarrow> Inl es
      | Inr s \<Rightarrow>
          if length s < lo then fail string_too_short
          else if (case hi of None \<Rightarrow> False | Some n \<Rightarrow> n < length s) then fail string_too_long
          else Inr s)"

text \<open>
  \<^verbatim>\<open>int\<close> and \<^verbatim>\<open>float\<close>: a value of the declared type is taken as it is, and an
  integer is a valid float: up to magnitude \<open>2 ^ 53\<close> the conversion is exact, a double
  having 53 significant bits. Any other value goes through the library's lax-mode
  coercion (digits in a string, a float without fractional part, a boolean, the rounding
  or refusal of a larger integer), which is not part of the repository and differs
  between library versions: it is a parameter of the model, and every result below holds
  whatever it does.
\<close>

record coercion =
  lax_int :: "pyval \<Rightarrow> error_type + int"
  lax_float :: "pyval \<Rightarrow> error_type + rat"

definition coerce_int :: "coercion \<Rightarrow> pyval \<Rightarrow> int result" where
  "coerce_int L v = (case lax_int L v of Inl t \<Rightarrow> fail t | Inr i \<Rightarrow> Inr i)"

definition coerce_float :: "coercion \<Rightarrow> pyval \<Rightarrow> rat result" where
  "coerce_float L v = (case lax_float L v of Inl t \<Rightarrow> fail t | Inr f \<Rightarrow> Inr f)"

definition validate_int :: "coercion \<Rightarrow> pyval \<Rightarrow> int result" where
  "validate_int L v =
     (case v of
        PInt i \<Rightarrow> Inr i
      | _ \<Rightarrow> coerce_int L v)"

definition validate_float :: "coercion \<Rightarrow> pyval \<Rightarrow> rat result" where
  "validate_float L v =
     (case v of
        PFloat f \<Rightarrow> Inr f
      | PInt i \<Rightarrow> if \<bar>i\<bar> \<le> 2 ^ 53 then Inr (of_int i) else coerce_float L v
      | _ \<Rightarrow> coerce_float L v)"

text \<open>The coercion that accepts nothing but the declared type, for closed examples.\<close>

definition exact_only :: coercion where
  "exact_only = \<lparr>lax_int = (\<lambda>v. Inl int_type), lax_float = (\<lambda>v. Inl float_type)\<rparr>"

text \<open>\<^verbatim>\<open>Optional[T]\<close>: \<^verbatim>\<open>None\<close>, or whatever \<^verbatim>\<open>T\<close> accepts.\<close>

definition optional :: "(pyval \<Rightarrow> 'a result) \<Rightarrow> pyval \<Rightarrow> 'a option result" where
  "optional val v = (case v of PNone \<Rightarrow> Inr None | _ \<Rightarrow> map_sum id Some (val v))"

text \<open>
  A \<^verbatim>\<open>(str, Enum)\<close> class: the input is looked up among the values of the members. A
  member is itself a string equal to its value, so the model writes it as that string
  wherever it is untyped.
\<close>

definition validate_enum :: "('e \<Rightarrow> string) \<Rightarrow> 'e list \<Rightarrow> pyval \<Rightarrow> 'e result" where
  "validate_enum value_of members v =
     (case v of
        PStr s \<Rightarrow>
          (case find (\<lambda>e. value_of e = s) members of
             None \<Rightarrow> fail enum_error
           | Some e \<Rightarrow> Inr e)
      | _ \<Rightarrow> fail enum_error)"

text \<open>\<^verbatim>\<open>Literal["a", "b"]\<close>: one of the listed strings.\<close>

definition validate_literal :: "string list \<Rightarrow> pyval \<Rightarrow> string result" where
  "validate_literal allowed v =
     (case v of
        PStr s \<Rightarrow> if s \<in> set allowed then Inr s else fail literal_error
      | _ \<Rightarrow> fail literal_error)"

subsection \<open>Serializers of the field types\<close>

definition dump_optional :: "('a \<Rightarrow> pyval) \<Rightarrow> 'a option \<Rightarrow> pyval" where
  "dump_optional dump x = (case x of None \<Rightarrow> PNone | Some a \<Rightarrow> dump a)"

section \<open>text_trigger.py\<close>

subsection \<open>The enumerations\<close>

datatype TextOutputLanguage =
    AUTO | EN | ES | FR | DE | PT | ZH | JA | KO | AR
  | HE | RU | IT | NL | PL | TR | VI | TH | ID | HI

fun TextOutputLanguage_value :: "TextOutputLanguage \<Rightarrow> string" where
  "TextOutputLanguage_value AUTO = ''auto''"
| "TextOutputLanguage_value EN = ''en''"
| "TextOutputLanguage_value ES = ''es''"
| "TextOutputLanguage_value FR = ''fr''"
| "TextOutputLanguage_value DE = ''de''"
| "TextOutputLanguage_value PT = ''pt''"
| "TextOutputLanguage_value ZH = ''zh''"
| "TextOutputLanguage_value JA = ''ja''"
| "TextOutputLanguage_value KO = ''ko''"
| "TextOutputLanguage_value AR = ''ar''"
| "TextOutputLanguage_value HE = ''he''"
| "TextOutputLanguage_value RU = ''ru''"
| "TextOutputLanguage_value IT = ''it''"
| "TextOutputLanguage_value NL = ''nl''"
| "TextOutputLanguage_value PL = ''pl''"
| "TextOutputLanguage_value TR = ''tr''"
| "TextOutputLanguage_value VI = ''vi''"
| "TextOutputLanguage_value TH = ''th''"
| "TextOutputLanguage_value ID = ''id''"
| "TextOutputLanguage_value HI = ''hi''"

definition TextOutputLanguage_members :: "TextOutputLanguage list" where
  "TextOutputLanguage_members =
     [AUTO, EN, ES, FR, DE, PT, ZH, JA, KO, AR, HE, RU, IT, NL, PL, TR, VI, TH, ID, HI]"

datatype TextInputType = WORKFLOW_RECORDING | TEACHING_SESSION

fun TextInputType_value :: "TextInputType \<Rightarrow> string" where
  "TextInputType_value WORKFLOW_RECORDING = ''workflow_recording''"
| "TextInputType_value TEACHING_SESSION = ''teaching_session''"

definition TextInputType_members :: "TextInputType list" where
  "TextInputType_members = [WORKFLOW_RECORDING, TEACHING_SESSION]"

datatype TextOutputFormat = WORKFLOW_GUIDE | KNOWLEDGE_BASE

fun TextOutputFormat_value :: "TextOutputFormat \<Rightarrow> string" where
  "TextOutputFormat_value WORKFLOW_GUIDE = ''workflow_guide''"
| "TextOutputFormat_value KNOWLEDGE_BASE = ''knowledge_base''"

definition TextOutputFormat_members :: "TextOutputFormat list" where
  "TextOutputFormat_members = [WORKFLOW_GUIDE, KNOWLEDGE_BASE]"

datatype TextVisibility = PRIVATE | ORG_VIEW | ORG_EDIT

fun TextVisibility_value :: "TextVisibility \<Rightarrow> string" where
  "TextVisibility_value PRIVATE = ''private''"
| "TextVisibility_value ORG_VIEW = ''org:view''"
| "TextVisibility_value ORG_EDIT = ''org:edit''"

definition TextVisibility_members :: "TextVisibility list" where
  "TextVisibility_members = [PRIVATE, ORG_VIEW, ORG_EDIT]"

subsection \<open>TextSessionRef\<close>

record TextSessionRef =
  org_id :: string
  user_id :: string
  user_email :: "string option"
  session_id :: string
  content :: string

definition TextSessionRef_fields :: "string list" where
  "TextSessionRef_fields = [''org_id'', ''user_id'', ''user_email'', ''session_id'', ''content'']"

definition TextSessionRef_validate_fields :: "(string \<rightharpoonup> pyval) \<Rightarrow> TextSessionRef result" where
  "TextSessionRef_validate_fields m =
     ap (ap (ap (ap (ap (Inr TextSessionRef.make)
       (required m ''org_id'' (validate_str_len 1 None)))
       (required m ''user_id'' (validate_str_len 1 None)))
       (with_default m ''user_email'' (optional validate_str) None))
       (required m ''session_id'' (validate_str_len 1 None)))
       (required m ''content'' (validate_str_len 50 (Some 50000)))"

definition TextSessionRef_model_validate :: "pyval \<Rightarrow> TextSessionRef result" where
  "TextSessionRef_model_validate v =
     (case v of
        PDict d \<Rightarrow> forbid_extra TextSessionRef_fields d (TextSessionRef_validate_fields (map_of d))
      | _ \<Rightarrow> fail model_type)"

definition TextSessionRef_model_dump :: "TextSessionRef \<Rightarrow> pyval" where
  "TextSessionRef_model_dump x = PDict
     [(''org_id'', PStr (TextSessionRef.org_id x)),
      (''user_id'', PStr (TextSessionRef.user_id x)),
      (''user_email'', dump_optional PStr (user_email x)),
      (''session_id'', PStr (TextSessionRef.session_id x)),
      (''content'', PStr (content x))]"

subsection \<open>TextProcessingOptions\<close>

record TextProcessingOptions =
  input_type :: TextInputType
  output_format :: TextOutputFormat
  model :: string
  output_language :: TextOutputLanguage

definition TextProcessingOptions_fields :: "string list" where
  "TextProcessingOptions_fields = [''input_type'', ''output_format'', ''model'', ''output_language'']"

definition TextProcessingOptions_validate_fields ::
  "(string \<rightharpoonup> pyval) \<Rightarrow> TextProcessingOptions result" where
  "TextProcessingOptions_validate_fields m =
     ap (ap (ap (ap (Inr TextProcessingOptions.make)
       (required m ''input_type'' (validate_enum TextInputType_value TextInputType_members)))
       (required m ''output_format'' (validate_enum TextOutputFormat_value TextOutputFormat_members)))
       (with_default m ''model'' validate_str ''gemini-3-pro-preview''))
       (with_default m ''output_language''
          (validate_enum TextOutputLanguage_value TextOutputLanguage_members) AUTO)"

definition TextProcessingOptions_model_validate :: "pyval \<Rightarrow> TextProcessingOptions result" where
  "TextProcessingOptions_model_validate v =
     (case v of
        PDict d \<Rightarrow>
          forbid_extra TextProcessingOptions_fields d
            (TextProcessingOptions_validate_fields (map_of d))
      | _ \<Rightarrow> fail model_type)"

definition TextProcessingOptions_model_dump :: "TextProcessingOptions \<Rightarrow> pyval" where
  "TextProcessingOptions_model_dump x = PDict
     [(''input_type'', PStr (TextInputType_value (input_type x))),
      (''output_format'', PStr (TextOutputFormat_value (output_format x))),
      (''model'', PStr (model x)),
      (''output_language'', PStr (TextOutputLanguage_value (output_language x)))]"

subsection \<open>TextTrigger\<close>

record TextTrigger =
  version :: string
  text_session :: TextSessionRef
  processing_options :: TextProcessingOptions
  visibility :: TextVisibility
  source :: string
  project_id :: "string option"
  name :: "string option"

definition TextTrigger_fields :: "string list" where
  "TextTrigger_fields =
     [''version'', ''text_session'', ''processing_options'', ''visibility'', ''source'',
      ''project_id'', ''name'']"

definition TextTrigger_validate_fields :: "(string \<rightharpoonup> pyval) \<Rightarrow> TextTrigger result" where
  "TextTrigger_validate_fields m =
     ap (ap (ap (ap (ap (ap (ap (Inr TextTrigger.make)
       (with_default m ''version'' (validate_literal [''1.0'']) ''1.0''))
       (required m ''text_session'' TextSessionRef_model_validate))
       (required m ''processing_options'' TextProcessingOptions_model_validate))
       (with_default m ''visibility'' (validate_enum TextVisibility_value TextVisibility_members) PRIVATE))
       (with_default m ''source'' (validate_literal [''mcp-generate'']) ''mcp-generate''))
       (with_default m ''project_id'' (optional validate_str) None))
       (with_default m ''name'' (optional validate_str) None)"

definition TextTrigger_model_validate :: "pyval \<Rightarrow> TextTrigger result" where
  "TextTrigger_model_validate v =
     (case v of
        PDict d \<Rightarrow> forbid_extra TextTrigger_fields d (TextTrigger_validate_fields (map_of d))
      | _ \<Rightarrow> fail model_type)"

definition TextTrigger_model_dump :: "TextTrigger \<Rightarrow> pyval" where
  "TextTrigger_model_dump x = PDict
     [(''version'', PStr (TextTrigger.version x)),
      (''text_session'', TextSessionRef_model_dump (text_session x)),
      (''processing_options'', TextProcessingOptions_model_dump (processing_options x)),
      (''visibility'', PStr (TextVisibility_value (visibility x))),
      (''source'', PStr (source x)),
      (''project_id'', dump_optional PStr (project_id x)),
      (''name'', dump_optional PStr (name x))]"

subsection \<open>TextGenerateResponse\<close>

record TextGenerateResponse =
  status :: string
  session_id :: string
  message :: string
  estimated_seconds :: "int option"

definition TextGenerateResponse_fields :: "string list" where
  "TextGenerateResponse_fields = [''status'', ''session_id'', ''message'', ''estimated_seconds'']"

definition TextGenerateResponse_validate_fields ::
  "coercion \<Rightarrow> (string \<rightharpoonup> pyval) \<Rightarrow> TextGenerateResponse result" where
  "TextGenerateResponse_validate_fields L m =
     ap (ap (ap (ap (Inr TextGenerateResponse.make)
       (required m ''status'' (validate_literal [''accepted'', ''error''])))
       (required m ''session_id'' validate_str))
       (required m ''message'' validate_str))
       (with_default m ''estimated_seconds'' (optional (validate_int L)) None)"

definition TextGenerateResponse_model_validate :: "coercion \<Rightarrow> pyval \<Rightarrow> TextGenerateResponse result" where
  "TextGenerateResponse_model_validate L v =
     (case v of
        PDict d \<Rightarrow>
          forbid_extra TextGenerateResponse_fields d
            (TextGenerateResponse_validate_fields L (map_of d))
      | _ \<Rightarrow> fail model_type)"

definition TextGenerateResponse_model_dump :: "TextGenerateResponse \<Rightarrow> pyval" where
  "TextGenerateResponse_model_dump x = PDict
     [(''status'', PStr (TextGenerateResponse.status x)),
      (''session_id'', PStr (TextGenerateResponse.session_id x)),
      (''message'', PStr (message x)),
      (''estimated_seconds'', dump_optional PInt (estimated_seconds x))]"

section \<open>persistent_session.py\<close>

record PersistentSession =
  session_id :: string
  user_id :: string
  org_id :: string
  device_fingerprint :: string
  created_at :: string
  started_at :: string
  stopped_at :: "string option"
  completed_at :: "string option"
  updated_at :: string
  status :: string
  substatus :: "string option"
  presence_ticket_jti :: string
  processing_id :: "string option"
  firestore_path :: "string option"
  processing_time_seconds :: "rat option"
  stopped_by_user_id :: "string option"
  stop_method :: "string option"
  error :: "string option"
  error_code :: "string option"
  retry_count :: int
  version :: int
  ttl_expires_at :: string

definition PersistentSession_fields :: "string list" where
  "PersistentSession_fields =
     [''session_id'', ''user_id'', ''org_id'', ''device_fingerprint'',
      ''created_at'', ''started_at'', ''stopped_at'', ''completed_at'', ''updated_at'',
      ''status'', ''substatus'', ''presence_ticket_jti'',
      ''processing_id'', ''firestore_path'', ''processing_time_seconds'',
      ''stopped_by_user_id'', ''stop_method'',
      ''error'', ''error_code'', ''retry_count'', ''version'', ''ttl_expires_at'']"

definition PersistentSession_validate_fields ::
  "coercion \<Rightarrow> (string \<rightharpoonup> pyval) \<Rightarrow> PersistentSession result" where
  "PersistentSession_validate_fields L m =
     ap (ap (ap (ap (ap (ap (ap (ap (ap (ap (ap
    (ap (ap (ap (ap (ap (ap (ap (ap (ap (ap (ap (Inr PersistentSession.make)
       (required m ''session_id'' validate_str))
       (required m ''user_id'' validate_str))
       (required m ''org_id'' validate_str))
       (required m ''device_fingerprint'' validate_str))
       (required m ''created_at'' validate_str))
       (required m ''started_at'' validate_str))
       (with_default m ''stopped_at'' (optional validate_str) None))
       (with_default m ''completed_at'' (optional validate_str) None))
       (required m ''updated_at'' validate_str))
       (required m ''status'' validate_str))
       (with_default m ''substatus'' (optional validate_str) None))
       (required m ''presence_ticket_jti'' validate_str))
       (with_default m ''processing_id'' (optional validate_str) None))
       (with_default m ''firestore_path'' (optional validate_str) None))
       (with_default m ''processing_time_seconds'' (optional (validate_float L)) None))
       (with_default m ''stopped_by_user_id'' (optional validate_str) None))
       (with_default m ''stop_method'' (optional validate_str) None))
       (with_default m ''error'' (optional validate_str) None))
       (with_default m ''error_code'' (optional validate_str) None))
       (with_default m ''retry_count'' (validate_int L) 0))
       (with_default m ''version'' (validate_int L) 1))
       (required m ''ttl_expires_at'' validate_str)"

text \<open>No \<^verbatim>\<open>model_config\<close>: the library's default, under which undeclared keys are ignored.\<close>

definition PersistentSession_model_validate :: "coercion \<Rightarrow> pyval \<Rightarrow> PersistentSession result" where
  "PersistentSession_model_validate L v =
     (case v of
        PDict d \<Rightarrow> PersistentSession_validate_fields L (map_of d)
      | _ \<Rightarrow> fail model_type)"

definition PersistentSession_model_dump :: "PersistentSession \<Rightarrow> pyval" where
  "PersistentSession_model_dump x = PDict
     [(''session_id'', PStr (session_id x)),
      (''user_id'', PStr (user_id x)),
      (''org_id'', PStr (org_id x)),
      (''device_fingerprint'', PStr (device_fingerprint x)),
      (''created_at'', PStr (created_at x)),
      (''started_at'', PStr (started_at x)),
      (''stopped_at'', dump_optional PStr (stopped_at x)),
      (''completed_at'', dump_optional PStr (completed_at x)),
      (''updated_at'', PStr (updated_at x)),
      (''status'', PStr (status x)),
      (''substatus'', dump_optional PStr (substatus x)),
      (''presence_ticket_jti'', PStr (presence_ticket_jti x)),
      (''processing_id'', dump_optional PStr (processing_id x)),
      (''firestore_path'', dump_optional PStr (firestore_path x)),
      (''processing_time_seconds'', dump_optional PFloat (processing_time_seconds x)),
      (''stopped_by_user_id'', dump_optional PStr (stopped_by_user_id x)),
      (''stop_method'', dump_optional PStr (stop_method x)),
      (''error'', dump_optional PStr (error x)),
      (''error_code'', dump_optional PStr (error_code x)),
      (''retry_count'', PInt (retry_count x)),
      (''version'', PInt (version x)),
      (''ttl_expires_at'', PStr (ttl_expires_at x))]"

section \<open>The declared constraints, as the specification words them\<close>

text \<open>
  Validate-and-construct is specified to succeed if every field satisfies its declared
  type, its required or optional status, its closed set of values and its length bound.
  The predicates below say this of an untyped structure directly, without constructing
  anything: a required field is \<open>present\<close> with a value of its type, a field with a
  default is absent or has such a value, an optional attribute may also be null, and a
  closed schema has \<open>only_keys\<close> it declares. The source declares no bound on any
  number, so none is asked for here: a structure that also keeps its counts and durations
  non-negative satisfies these predicates all the same.
\<close>

fun is_str :: "pyval \<Rightarrow> bool" where
  "is_str (PStr s) = True"
| "is_str _ = False"

fun is_int :: "pyval \<Rightarrow> bool" where
  "is_int (PInt i) = True"
| "is_int _ = False"

fun is_number :: "pyval \<Rightarrow> bool" where
  "is_number (PFloat f) = True"
| "is_number (PInt i) = (\<bar>i\<bar> \<le> 2 ^ 53)"
| "is_number _ = False"

fun str_of_length :: "nat \<Rightarrow> nat \<Rightarrow> pyval \<Rightarrow> bool" where
  "str_of_length lo hi (PStr s) = (lo \<le> length s \<and> length s \<le> hi)"
| "str_of_length lo hi _ = False"

fun nonempty_str :: "pyval \<Rightarrow> bool" where
  "nonempty_str (PStr s) = (s \<noteq> [])"
| "nonempty_str _ = False"

fun one_of :: "string list \<Rightarrow> pyval \<Rightarrow> bool" where
  "one_of allowed (PStr s) = (s \<in> set allowed)"
| "one_of allowed _ = False"

definition nullable :: "(pyval \<Rightarrow> bool) \<Rightarrow> pyval \<Rightarrow> bool" where
  "nullable P v = (v = PNone \<or> P v)"

definition present :: "(string \<rightharpoonup> pyval) \<Rightarrow> string \<Rightarrow> (pyval \<Rightarrow> bool) \<Rightarrow> bool" where
  "present m k P = (case m k of None \<Rightarrow> False | Some v \<Rightarrow> P v)"

definition absent_or :: "(string \<rightharpoonup> pyval) \<Rightarrow> string \<Rightarrow> (pyval \<Rightarrow> bool) \<Rightarrow> bool" where
  "absent_or m k P = (case m k of None \<Rightarrow> True | Some v \<Rightarrow> P v)"

definition only_keys :: "string list \<Rightarrow> (string \<times> pyval) list \<Rightarrow> bool" where
  "only_keys declared d = list_all (\<lambda>k. k \<in> set declared) (map fst d)"

definition TextSessionRef_conforms :: "pyval \<Rightarrow> bool" where
  "TextSessionRef_conforms v =
     (case v of
        PDict d \<Rightarrow>
          only_keys [''org_id'', ''user_id'', ''user_email'', ''session_id'', ''content''] d \<and>
          present (map_of d) ''org_id'' nonempty_str \<and>
          present (map_of d) ''user_id'' nonempty_str \<and>
          absent_or (map_of d) ''user_email'' (nullable is_str) \<and>
          present (map_of d) ''session_id'' nonempty_str \<and>
          present (map_of d) ''content'' (str_of_length 50 50000)
      | _ \<Rightarrow> False)"

definition TextProcessingOptions_conforms :: "pyval \<Rightarrow> bool" where
  "TextProcessingOptions_conforms v =
     (case v of
        PDict d \<Rightarrow>
          only_keys [''input_type'', ''output_format'', ''model'', ''output_language''] d \<and>
          present (map_of d) ''input_type'' (one_of [''workflow_recording'', ''teaching_session'']) \<and>
          present (map_of d) ''output_format'' (one_of [''workflow_guide'', ''knowledge_base'']) \<and>
          absent_or (map_of d) ''model'' is_str \<and>
          absent_or (map_of d) ''output_language''
            (one_of [''auto'', ''en'', ''es'', ''fr'', ''de'', ''pt'', ''zh'', ''ja'', ''ko'', ''ar'',
                     ''he'', ''ru'', ''it'', ''nl'', ''pl'', ''tr'', ''vi'', ''th'', ''id'', ''hi''])
      | _ \<Rightarrow> False)"

definition TextTrigger_conforms :: "pyval \<Rightarrow> bool" where
  "TextTrigger_conforms v =
     (case v of
        PDict d \<Rightarrow>
          only_keys [''version'', ''text_session'', ''processing_options'', ''visibility'',
                     ''source'', ''project_id'', ''name''] d \<and>
          absent_or (map_of d) ''version'' (one_of [''1.0'']) \<and>
          present (map_of d) ''text_session'' TextSessionRef_conforms \<and>
          present (map_of d) ''processing_options'' TextProcessingOptions_conforms \<and>
          absent_or (map_of d) ''visibility'' (one_of [''private'', ''org:view'', ''org:edit'']) \<and>
          absent_or (map_of d) ''source'' (one_of [''mcp-generate'']) \<and>
          absent_or (map_of d) ''project_id'' (nullable is_str) \<and>
          absent_or (map_of d) ''name'' (nullable is_str)
      | _ \<Rightarrow> False)"

definition TextGenerateResponse_conforms :: "pyval \<Rightarrow> bool" where
  "TextGenerateResponse_conforms v =
     (case v of
        PDict d \<Rightarrow>
          only_keys [''status'', ''session_id'', ''message'', ''estimated_seconds''] d \<and>
          present (map_of d) ''status'' (one_of [''accepted'', ''error'']) \<and>
          present (map_of d) ''session_id'' is_str \<and>
          present (map_of d) ''message'' is_str \<and>
          absent_or (map_of d) ''estimated_seconds'' (nullable is_int)
      | _ \<Rightarrow> False)"

definition PersistentSession_conforms :: "pyval \<Rightarrow> bool" where
  "PersistentSession_conforms v =
     (case v of
        PDict d \<Rightarrow>
          present (map_of d) ''session_id'' is_str \<and>
          present (map_of d) ''user_id'' is_str \<and>
          present (map_of d) ''org_id'' is_str \<and>
          present (map_of d) ''device_fingerprint'' is_str \<and>
          present (map_of d) ''created_at'' is_str \<and>
          present (map_of d) ''started_at'' is_str \<and>
          absent_or (map_of d) ''stopped_at'' (nullable is_str) \<and>
          absent_or (map_of d) ''completed_at'' (nullable is_str) \<and>
          present (map_of d) ''updated_at'' is_str \<and>
          present (map_of d) ''status'' is_str \<and>
          absent_or (map_of d) ''substatus'' (nullable is_str) \<and>
          present (map_of d) ''presence_ticket_jti'' is_str \<and>
          absent_or (map_of d) ''processing_id'' (nullable is_str) \<and>
          absent_or (map_of d) ''firestore_path'' (nullable is_str) \<and>
          absent_or (map_of d) ''processing_time_seconds'' (nullable is_number) \<and>
          absent_or (map_of d) ''stopped_by_user_id'' (nullable is_str) \<and>
          absent_or (map_of d) ''stop_method'' (nullable is_str) \<and>
          absent_or (map_of d) ''error'' (nullable is_str) \<and>
          absent_or (map_of d) ''error_code'' (nullable is_str) \<and>
          absent_or (map_of d) ''retry_count'' is_int \<and>
          absent_or (map_of d) ''version'' is_int \<and>
          present (map_of d) ''ttl_expires_at'' is_str
      | _ \<Rightarrow> False)"

section \<open>Example structures\<close>

text \<open>A session record in status \<^verbatim>\<open>failed\<close> that gives the required fields only.\<close>

definition failed_session :: "(string \<times> pyval) list" where
  "failed_session =
     [(''session_id'', PStr ''s1''),
      (''user_id'', PStr ''u1''),
      (''org_id'', PStr ''o1''),
      (''device_fingerprint'', PStr ''fp1''),
      (''created_at'', PStr ''2024-05-01T10:00:00+00:00''),
      (''started_at'', PStr ''2024-05-01T10:00:05+00:00''),
      (''updated_at'', PStr ''2024-05-01T10:07:30+00:00''),
      (''status'', PStr ''failed''),
      (''presence_ticket_jti'', PStr ''jti1''),
      (''ttl_expires_at'', PStr ''2024-05-08T10:00:00+00:00'')]"

text \<open>The instance that \<open>failed_session\<close> validates to.\<close>

definition failed_session_record :: PersistentSession where
  "failed_session_record =
     \<lparr>session_id = ''s1'', user_id = ''u1'', org_id = ''o1'', device_fingerprint = ''fp1'',
      created_at = ''2024-05-01T10:00:00+00:00'', started_at = ''2024-05-01T10:00:05+00:00'',
      stopped_at = None, completed_at = None, updated_at = ''2024-05-01T10:07:30+00:00'',
      status = ''failed'', substatus = None, presence_ticket_jti = ''jti1'',
      processing_id = None, firestore_path = None, processing_time_seconds = None,
      stopped_by_user_id = None, stop_method = None, error = None, error_code = None,
      retry_count = 0, version = 1, ttl_expires_at = ''2024-05-08T10:00:00+00:00''\<rparr>"

text \<open>The trigger of the specification's example, over a content \<open>c\<close>, and its two parts.\<close>

definition example_text_session :: "string \<Rightarrow> pyval" where
  "example_text_session c = PDict
     [(''org_id'', PStr ''o1''), (''user_id'', PStr ''u1''), (''session_id'', PStr ''s1''),
      (''content'', PStr c)]"

definition example_processing_options :: pyval where
  "example_processing_options = PDict
     [(''input_type'', PStr ''workflow_recording''),
      (''output_format'', PStr ''workflow_guide'')]"

definition example_trigger :: "string \<Rightarrow> pyval" where
  "example_trigger c = PDict
     [(''text_session'', example_text_session c),
      (''processing_options'', example_processing_options)]"

text \<open>The instances they validate to.\<close>

definition example_text_session_record :: "string \<Rightarrow> TextSessionRef" where
  "example_text_session_record c =
     \<lparr>TextSessionRef.org_id = ''o1'', TextSessionRef.user_id = ''u1'', user_email = None,
      TextSessionRef.session_id = ''s1'', content = c\<rparr>"

definition example_processing_options_record :: TextProcessingOptions where
  "example_processing_options_record =
     \<lparr>input_type = WORKFLOW_RECORDING, output_format = WORKFLOW_GUIDE,
      model = ''gemini-3-pro-preview'', output_language = AUTO\<rparr>"

definition example_trigger_record :: "string \<Rightarrow> TextTrigger" where
  "example_trigger_record c =
     \<lparr>TextTrigger.version = ''1.0'', text_session = example_text_session_record c,
      processing_options = example_processing_options_record,
      visibility = PRIVATE, source = ''mcp-generate'', project_id = None, name = None\<rparr>"

text \<open>An acknowledgment without an estimate, and the instance it validates to.\<close>

definition example_response :: pyval where
  "example_response = PDict
     [(''status'', PStr ''accepted''), (''session_id'', PStr ''s1''),
      (''message'', PStr ''queued'')]"

definition example_response_record :: TextGenerateResponse where
  "example_response_record =
     \<lparr>TextGenerateResponse.status = ''accepted'', TextGenerateResponse.session_id = ''s1'',
      message = ''queued'', estimated_seconds = None\<rparr>"

text \<open>
  The round trip of one instance: validating its serialization gives the instance back,
  so that serializing again gives the same structure.
\<close>

definition round_trips :: "(pyval \<Rightarrow> 'a result) \<Rightarrow> ('a \<Rightarrow> pyval) \<Rightarrow> 'a \<Rightarrow> bool" where
  "round_trips validate dump x \<longleftrightarrow>
     validate (dump x) = Inr x \<and> map_sum id dump (validate (dump x)) = Inr (dump x)"

text \<open>Whether a string is accepted as \<open>output_language\<close>, beside two valid required fields.\<close>

definition accepts_output_language :: "string \<Rightarrow> bool" where
  "accepts_output_language s \<longleftrightarrow>
     \<not> isl (TextProcessingOptions_model_validate (PDict
       [(''input_type'', PStr ''workflow_recording''),
        (''output_format'', PStr ''workflow_guide''),
        (''output_language'', PStr s)]))"

section \<open>Canonical structures and valid instances\<close>

text \<open>
  Serialize is specified to produce the canonical structure. For an untyped structure
  that is the dictionary of every declared field, in the order of declaration, each with
  the value that was supplied, or with the declared default where the field is omitted
  (null for an optional attribute). An embedded model is canonical in turn, an integer
  given for a float is that float (in Python the two compare equal), and undeclared keys
  of a session record are left out. \<open>get_or m k z\<close> is \<^verbatim>\<open>m.get(k, z)\<close>; for a required
  field the fallback is never used when the structure conforms.
\<close>

definition get_or :: "(string \<rightharpoonup> pyval) \<Rightarrow> string \<Rightarrow> pyval \<Rightarrow> pyval" where
  "get_or m k z = (case m k of None \<Rightarrow> z | Some v \<Rightarrow> v)"

fun as_float :: "pyval \<Rightarrow> pyval" where
  "as_float (PInt i) = PFloat (of_int i)"
| "as_float v = v"

definition TextSessionRef_canonical :: "pyval \<Rightarrow> pyval" where
  "TextSessionRef_canonical v =
     (case v of
        PDict d \<Rightarrow> PDict
          [(''org_id'', get_or (map_of d) ''org_id'' PNone),
           (''user_id'', get_or (map_of d) ''user_id'' PNone),
           (''user_email'', get_or (map_of d) ''user_email'' PNone),
           (''session_id'', get_or (map_of d) ''session_id'' PNone),
           (''content'', get_or (map_of d) ''content'' PNone)]
      | _ \<Rightarrow> v)"

definition TextProcessingOptions_canonical :: "pyval \<Rightarrow> pyval" where
  "TextProcessingOptions_canonical v =
     (case v of
        PDict d \<Rightarrow> PDict
          [(''input_type'', get_or (map_of d) ''input_type'' PNone),
           (''output_format'', get_or (map_of d) ''output_format'' PNone),
           (''model'', get_or (map_of d) ''model'' (PStr ''gemini-3-pro-preview'')),
           (''output_language'', get_or (map_of d) ''output_language'' (PStr ''auto''))]
      | _ \<Rightarrow> v)"

definition TextTrigger_canonical :: "pyval \<Rightarrow> pyval" where
  "TextTrigger_canonical v =
     (case v of
        PDict d \<Rightarrow> PDict
          [(''version'', get_or (map_of d) ''version'' (PStr ''1.0'')),
           (''text_session'', TextSessionRef_canonical (get_or (map_of d) ''text_session'' PNone)),
           (''processing_options'',
              TextProcessingOptions_canonical (get_or (map_of d) ''processing_options'' PNone)),
           (''visibility'', get_or (map_of d) ''visibility'' (PStr ''private'')),
           (''source'', get_or (map_of d) ''source'' (PStr ''mcp-generate'')),
           (''project_id'', get_or (map_of d) ''project_id'' PNone),
           (''name'', get_or (map_of d) ''name'' PNone)]
      | _ \<Rightarrow> v)"

definition TextGenerateResponse_canonical :: "pyval \<Rightarrow> pyval" where
  "TextGenerateResponse_canonical v =
     (case v of
        PDict d \<Rightarrow> PDict
          [(''status'', get_or (map_of d) ''status'' PNone),
           (''session_id'', get_or (map_of d) ''session_id'' PNone),
           (''message'', get_or (map_of d) ''message'' PNone),
           (''estimated_seconds'', get_or (map_of d) ''estimated_seconds'' PNone)]
      | _ \<Rightarrow> v)"

definition PersistentSession_canonical :: "pyval \<Rightarrow> pyval" where
  "PersistentSession_canonical v =
     (case v of
        PDict d \<Rightarrow> PDict
          [(''session_id'', get_or (map_of d) ''session_id'' PNone),
           (''user_id'', get_or (map_of d) ''user_id'' PNone),
           (''org_id'', get_or (map_of d) ''org_id'' PNone),
           (''device_fingerprint'', get_or (map_of d) ''device_fingerprint'' PNone),
           (''created_at'', get_or (map_of d) ''created_at'' PNone),
           (''started_at'', get_or (map_of d) ''started_at'' PNone),
           (''stopped_at'', get_or (map_of d) ''stopped_at'' PNone),
           (''completed_at'', get_or (map_of d) ''completed_at'' PNone),
           (''updated_at'', get_or (map_of d) ''updated_at'' PNone),
           (''status'', get_or (map_of d) ''status'' PNone),
           (''substatus'', get_or (map_of d) ''substatus'' PNone),
           (''presence_ticket_jti'', get_or (map_of d) ''presence_ticket_jti'' PNone),
           (''processing_id'', get_or (map_of d) ''processing_id'' PNone),
           (''firestore_path'', get_or (map_of d) ''firestore_path'' PNone),
           (''processing_time_seconds'',
              as_float (get_or (map_of d) ''processing_time_seconds'' PNone)),
           (''stopped_by_user_id'', get_or (map_of d) ''stopped_by_user_id'' PNone),
           (''stop_method'', get_or (map_of d) ''stop_method'' PNone),
           (''error'', get_or (map_of d) ''error'' PNone),
           (''error_code'', get_or (map_of d) ''error_code'' PNone),
           (''retry_count'', get_or (map_of d) ''retry_count'' (PInt 0)),
           (''version'', get_or (map_of d) ''version'' (PInt 1)),
           (''ttl_expires_at'', get_or (map_of d) ''ttl_expires_at'' PNone)]
      | _ \<Rightarrow> v)"

text \<open>
  The declared constraints again, of a typed instance. \<open>TextProcessingOptions\<close> and
  \<open>PersistentSession\<close> have none beyond the types of their fields.
\<close>

definition TextSessionRef_valid :: "TextSessionRef \<Rightarrow> bool" where
  "TextSessionRef_valid x \<longleftrightarrow>
     1 \<le> length (TextSessionRef.org_id x) \<and>
     1 \<le> length (TextSessionRef.user_id x) \<and>
     1 \<le> length (TextSessionRef.session_id x) \<and>
     50 \<le> length (content x) \<and> length (content x) \<le> 50000"

definition TextTrigger_valid :: "TextTrigger \<Rightarrow> bool" where
  "TextTrigger_valid x \<longleftrightarrow>
     TextTrigger.version x = ''1.0'' \<and>
     TextSessionRef_valid (text_session x) \<and>
     source x = ''mcp-generate''"

definition TextGenerateResponse_valid :: "TextGenerateResponse \<Rightarrow> bool" where
  "TextGenerateResponse_valid x \<longleftrightarrow>
     TextGenerateResponse.status x = ''accepted'' \<or> TextGenerateResponse.status x = ''error''"

section \<open>Assignment to a constructed session record\<close>

text \<open>
  \<^verbatim>\<open>PersistentSession\<close> sets no \<^verbatim>\<open>model_config\<close>, so \<^verbatim>\<open>frozen\<close> and
  \<^verbatim>\<open>validate_assignment\<close> keep the library's defaults, both false: an assignment
  \<^verbatim>\<open>p.session_id = s\<close> to a constructed record stores the value. A frozen model would
  raise a \<^verbatim>\<open>frozen_instance\<close> error instead. The assignments modelled are those of a
  string to one of the four identifier fields.
\<close>

definition PersistentSession_frozen :: bool where
  "PersistentSession_frozen = False"

datatype PersistentSession_assignment =
    Set_session_id string
  | Set_user_id string
  | Set_org_id string
  | Set_presence_ticket_jti string

definition assign ::
  "bool \<Rightarrow> string \<Rightarrow> ('a \<Rightarrow> 'a) \<Rightarrow> 'a \<Rightarrow> 'a result" where
  "assign frozen k upd x = (if frozen then Inl [([k], frozen_instance)] else Inr (upd x))"

fun PersistentSession_setattr ::
  "PersistentSession_assignment \<Rightarrow> PersistentSession \<Rightarrow> PersistentSession result" where
  "PersistentSession_setattr (Set_session_id s) x =
     assign PersistentSession_frozen ''session_id'' (\<lambda>x. x\<lparr>session_id := s\<rparr>) x"
| "PersistentSession_setattr (Set_user_id s) x =
     assign PersistentSession_frozen ''user_id'' (\<lambda>x. x\<lparr>user_id := s\<rparr>) x"
| "PersistentSession_setattr (Set_org_id s) x =
     assign PersistentSession_frozen ''org_id'' (\<lambda>x. x\<lparr>org_id := s\<rparr>) x"
| "PersistentSession_setattr (Set_presence_ticket_jti s) x =
     assign PersistentSession_frozen ''presence_ticket_jti''
       (\<lambda>x. x\<lparr>presence_ticket_jti := s\<rparr>) x"

section \<open>Example structures that supply the optional fields\<close>

definition full_text_session :: pyval where
  "full_text_session = PDict
     [(''content'', PStr ''Open the billing page, then export the March report.''),
      (''org_id'', PStr ''o1''), (''user_id'', PStr ''u1''),
      (''user_email'', PStr ''u1@example.org''), (''session_id'', PStr ''s1'')]"

definition full_text_session_record :: TextSessionRef where
  "full_text_session_record =
     \<lparr>TextSessionRef.org_id = ''o1'', TextSessionRef.user_id = ''u1'',
      user_email = Some ''u1@example.org'', TextSessionRef.session_id = ''s1'',
      content = ''Open the billing page, then export the March report.''\<rparr>"

definition full_processing_options :: pyval where
  "full_processing_options = PDict
     [(''input_type'', PStr ''teaching_session''), (''output_format'', PStr ''knowledge_base''),
      (''output_language'', PStr ''he''), (''model'', PStr ''m1'')]"

definition full_processing_options_record :: TextProcessingOptions where
  "full_processing_options_record =
     \<lparr>input_type = TEACHING_SESSION, output_format = KNOWLEDGE_BASE, model = ''m1'',
      output_language = HE\<rparr>"

definition full_trigger :: pyval where
  "full_trigger = PDict
     [(''text_session'', full_text_session),
      (''processing_options'', full_processing_options),
      (''visibility'', PStr ''org:view''),
      (''project_id'', PStr ''p1''),
      (''name'', PNone)]"

definition full_trigger_record :: TextTrigger where
  "full_trigger_record =
     \<lparr>TextTrigger.version = ''1.0'', text_session = full_text_session_record,
      processing_options = full_processing_options_record,
      visibility = ORG_VIEW, source = ''mcp-generate'', project_id = Some ''p1'', name = None\<rparr>"

definition full_response :: pyval where
  "full_response = PDict
     [(''status'', PStr ''accepted''), (''session_id'', PStr ''s1''),
      (''message'', PStr ''queued''), (''estimated_seconds'', PInt 30)]"

definition full_response_record :: TextGenerateResponse where
  "full_response_record =
     \<lparr>TextGenerateResponse.status = ''accepted'', TextGenerateResponse.session_id = ''s1'',
      message = ''queued'', estimated_seconds = Some 30\<rparr>"

text \<open>A completed session: optional fields, an integer duration and an undeclared key.\<close>

definition completed_session :: "(string \<times> pyval) list" where
  "completed_session =
     [(''comment'', PStr ''kept by the writer only''),
      (''session_id'', PStr ''s2''),
      (''user_id'', PStr ''u1''),
      (''org_id'', PStr ''o1''),
      (''device_fingerprint'', PStr ''fp1''),
      (''created_at'', PStr ''2024-05-01T10:00:00+00:00''),
      (''started_at'', PStr ''2024-05-01T10:00:05+00:00''),
      (''stopped_at'', PStr ''2024-05-01T10:07:00+00:00''),
      (''completed_at'', PNone),
      (''updated_at'', PStr ''2024-05-01T10:07:30+00:00''),
      (''status'', PStr ''completed''),
      (''presence_ticket_jti'', PStr ''jti2''),
      (''processing_time_seconds'', PInt 3),
      (''stop_method'', PStr ''hotkey''),
      (''retry_count'', PInt 2),
      (''ttl_expires_at'', PStr ''2024-05-08T10:00:00+00:00'')]"

definition completed_session_record :: PersistentSession where
  "completed_session_record =
     \<lparr>session_id = ''s2'', user_id = ''u1'', org_id = ''o1'', device_fingerprint = ''fp1'',
      created_at = ''2024-05-01T10:00:00+00:00'', started_at = ''2024-05-01T10:00:05+00:00'',
      stopped_at = Some ''2024-05-01T10:07:00+00:00'', completed_at = None,
      updated_at = ''2024-05-01T10:07:30+00:00'',
      status = ''completed'', substatus = None, presence_ticket_jti = ''jti2'',
      processing_id = None, firestore_path = None, processing_time_seconds = Some 3,
      stopped_by_user_id = None, stop_method = Some ''hotkey'', error = None, error_code = None,
      retry_count = 2, version = 1, ttl_expires_at = ''2024-05-08T10:00:00+00:00''\<rparr>"

section \<open>Properties of the validators\<close>

subsection \<open>Collecting fields\<close>

lemma ap_Inr_iff: "ap f r = Inr y \<longleftrightarrow> (\<exists>g a. f = Inr g \<and> r = Inr a \<and> y = g a)"
  by (cases f; cases r) auto

lemma isl_ap: "isl (ap f r) \<longleftrightarrow> isl f \<or> isl r"
  by (cases f; cases r) auto

lemma at_loc_Inr_iff: "at_loc k r = Inr x \<longleftrightarrow> r = Inr x"
  by (cases r) (auto simp: at_loc_def)

lemma isl_at_loc: "isl (at_loc k r) = isl r"
  by (cases r) (auto simp: at_loc_def)

lemma required_Inr_iff:
  "required m k val = Inr x \<longleftrightarrow> (\<exists>v. m k = Some v \<and> val v = Inr x)"
  by (auto simp: required_def at_loc_Inr_iff split: option.splits)

lemma with_default_Inr_iff:
  "with_default m k val dflt = Inr x \<longleftrightarrow>
     (m k = None \<and> x = dflt) \<or> (\<exists>v. m k = Some v \<and> val v = Inr x)"
  by (auto simp: with_default_def at_loc_Inr_iff split: option.splits)

lemma isl_required:
  "isl (required m k val) \<longleftrightarrow> (case m k of None \<Rightarrow> True | Some v \<Rightarrow> isl (val v))"
  by (simp add: required_def isl_at_loc split: option.splits)

lemma isl_with_default:
  "isl (with_default m k val dflt) \<longleftrightarrow> (case m k of None \<Rightarrow> False | Some v \<Rightarrow> isl (val v))"
  by (simp add: with_default_def isl_at_loc split: option.splits)

lemma extra_errors_Nil_iff:
  "extra_errors declared d = [] \<longleftrightarrow> fst ` set d \<subseteq> set declared"
  by (auto simp: extra_errors_def filter_empty_conv)

lemma forbid_extra_Inr_iff:
  "forbid_extra declared d r = Inr x \<longleftrightarrow> r = Inr x \<and> fst ` set d \<subseteq> set declared"
  by (cases "extra_errors declared d")
     (simp_all add: forbid_extra_def flip: extra_errors_Nil_iff)

lemma isl_forbid_extra:
  "isl (forbid_extra declared d r) \<longleftrightarrow> isl r \<or> \<not> fst ` set d \<subseteq> set declared"
  by (cases "extra_errors declared d")
     (simp_all add: forbid_extra_def flip: extra_errors_Nil_iff)

lemma validate_str_Inr_iff: "validate_str v = Inr s \<longleftrightarrow> v = PStr s"
  by (cases v) (auto simp: fail_def)

lemma validate_str_len_Inr_iff:
  "validate_str_len lo hi v = Inr s \<longleftrightarrow>
     v = PStr s \<and> lo \<le> length s \<and> (case hi of None \<Rightarrow> True | Some n \<Rightarrow> length s \<le> n)"
  by (cases v) (auto simp: validate_str_len_def fail_def split: option.splits)

lemma isl_validate_str_len:
  "isl (validate_str_len lo hi (PStr s)) \<longleftrightarrow>
     length s < lo \<or> (case hi of None \<Rightarrow> False | Some n \<Rightarrow> n < length s)"
  by (auto simp: validate_str_len_def fail_def split: option.splits)

lemma TextSessionRef_validate_fields_iff:
  "TextSessionRef_validate_fields m = Inr x \<longleftrightarrow>
     required m ''org_id'' (validate_str_len 1 None) = Inr (TextSessionRef.org_id x) \<and>
     required m ''user_id'' (validate_str_len 1 None) = Inr (TextSessionRef.user_id x) \<and>
     with_default m ''user_email'' (optional validate_str) None = Inr (user_email x) \<and>
     required m ''session_id'' (validate_str_len 1 None) = Inr (TextSessionRef.session_id x) \<and>
     required m ''content'' (validate_str_len 50 (Some 50000)) = Inr (content x)"
  unfolding TextSessionRef_validate_fields_def ap_Inr_iff TextSessionRef.make_def
  by (cases x) auto

lemma isl_TextSessionRef_validate_fields:
  "isl (TextSessionRef_validate_fields m) \<longleftrightarrow>
     isl (required m ''org_id'' (validate_str_len 1 None)) \<or>
     isl (required m ''user_id'' (validate_str_len 1 None)) \<or>
     isl (with_default m ''user_email'' (optional validate_str) None) \<or>
     isl (required m ''session_id'' (validate_str_len 1 None)) \<or>
     isl (required m ''content'' (validate_str_len 50 (Some 50000)))"
  by (simp add: TextSessionRef_validate_fields_def isl_ap)

subsection \<open>The length of \<open>content\<close>\<close>

text \<open>
  Claim C2. Whatever else a structure holds, a \<open>content\<close> string shorter than 50
  characters or longer than 50,000 characters makes the construction of a
  \<open>TextSessionRef\<close> fail with a validation error; a content of 50 to 50,000 characters,
  both bounds included, meets the constraint: with non-empty identifiers beside it the
  construction succeeds and keeps the content as it is.
\<close>

theorem content_length_bounds:
  "(map_of d ''content'' = Some (PStr s) \<and> (length s < 50 \<or> 50000 < length s)
      \<longrightarrow> isl (TextSessionRef_model_validate (PDict d))) \<and>
   (50 \<le> length s \<and> length s \<le> 50000 \<and> o_id \<noteq> [] \<and> u_id \<noteq> [] \<and> s_id \<noteq> []
      \<longrightarrow> TextSessionRef_model_validate (PDict
            [(''org_id'', PStr o_id), (''user_id'', PStr u_id), (''session_id'', PStr s_id),
             (''content'', PStr s)])
          = Inr \<lparr>TextSessionRef.org_id = o_id, TextSessionRef.user_id = u_id, user_email = None,
                 TextSessionRef.session_id = s_id, content = s\<rparr>)"
proof (intro conjI impI)
  assume "map_of d ''content'' = Some (PStr s) \<and> (length s < 50 \<or> 50000 < length s)"
  then have "isl (required (map_of d) ''content'' (validate_str_len 50 (Some 50000)))"
    by (auto simp: isl_required isl_validate_str_len)
  then show "isl (TextSessionRef_model_validate (PDict d))"
    by (simp add: TextSessionRef_model_validate_def isl_forbid_extra
        isl_TextSessionRef_validate_fields)
next
  assume "50 \<le> length s \<and> length s \<le> 50000 \<and> o_id \<noteq> [] \<and> u_id \<noteq> [] \<and> s_id \<noteq> []"
  then show "TextSessionRef_model_validate (PDict
            [(''org_id'', PStr o_id), (''user_id'', PStr u_id), (''session_id'', PStr s_id),
             (''content'', PStr s)])
          = Inr \<lparr>TextSessionRef.org_id = o_id, TextSessionRef.user_id = u_id, user_email = None,
                 TextSessionRef.session_id = s_id, content = s\<rparr>"
    by (simp add: TextSessionRef_model_validate_def forbid_extra_Inr_iff
        TextSessionRef_fields_def TextSessionRef_validate_fields_iff required_Inr_iff
        with_default_Inr_iff validate_str_len_Inr_iff Suc_le_eq)
qed

theorem content_length_bounds_witness:
  "isl (TextSessionRef_model_validate (PDict [(''content'', PStr ''too short'')])) \<and>
   isl (TextSessionRef_model_validate (PDict
     [(''org_id'', PStr ''o1''), (''user_id'', PStr ''u1''), (''session_id'', PStr ''s1''),
      (''content'', PStr (replicate 50001 CHR ''a''))])) \<and>
   TextSessionRef_model_validate (PDict
     [(''org_id'', PStr ''o1''), (''user_id'', PStr ''u1''), (''session_id'', PStr ''s1''),
      (''content'', PStr (replicate 50 CHR ''a''))])
     = Inr \<lparr>TextSessionRef.org_id = ''o1'', TextSessionRef.user_id = ''u1'', user_email = None,
            TextSessionRef.session_id = ''s1'', content = replicate 50 CHR ''a''\<rparr> \<and>
   TextSessionRef_model_validate (PDict
     [(''org_id'', PStr ''o1''), (''user_id'', PStr ''u1''), (''session_id'', PStr ''s1''),
      (''content'', PStr (replicate 50000 CHR ''a''))])
     = Inr \<lparr>TextSessionRef.org_id = ''o1'', TextSessionRef.user_id = ''u1'', user_email = None,
            TextSessionRef.session_id = ''s1'', content = replicate 50000 CHR ''a''\<rparr>"
  using content_length_bounds [of "[(''content'', PStr ''too short'')]" "''too short''"]
    content_length_bounds [of "[(''org_id'', PStr ''o1''), (''user_id'', PStr ''u1''),
      (''session_id'', PStr ''s1''), (''content'', PStr (replicate 50001 CHR ''a''))]"
      "replicate 50001 CHR ''a''"]
    content_length_bounds [where s = "replicate 50 CHR ''a''" and o_id = "''o1''"
      and u_id = "''u1''" and s_id = "''s1''"]
    content_length_bounds [where s = "replicate 50000 CHR ''a''" and o_id = "''o1''"
      and u_id = "''u1''" and s_id = "''s1''"]
  by simp

subsection \<open>Enumerations, literals and the other models\<close>

lemma validate_enum_Inr_iff:
  "validate_enum value_of members v = Inr e \<longleftrightarrow>
     (\<exists>s. v = PStr s \<and> find (\<lambda>e. value_of e = s) members = Some e)"
  by (cases v) (auto simp: validate_enum_def fail_def split: option.splits)

lemma isl_validate_enum:
  "isl (validate_enum value_of members (PStr s)) \<longleftrightarrow> s \<notin> set (map value_of members)"
proof (cases "find (\<lambda>e. value_of e = s) members")
  case None
  then have "s \<notin> value_of ` set members"
    by (auto simp: find_None_iff)
  with None show ?thesis
    by (simp add: validate_enum_def fail_def)
next
  case (Some e)
  then have "e \<in> set members" and "value_of e = s"
    by (auto simp: find_Some_iff)
  with Some show ?thesis
    by (auto simp: validate_enum_def)
qed

lemma validate_literal_Inr_iff:
  "validate_literal allowed v = Inr s \<longleftrightarrow> v = PStr s \<and> s \<in> set allowed"
  by (cases v) (auto simp: validate_literal_def fail_def)

lemma TextProcessingOptions_validate_fields_iff:
  "TextProcessingOptions_validate_fields m = Inr x \<longleftrightarrow>
     required m ''input_type'' (validate_enum TextInputType_value TextInputType_members)
       = Inr (input_type x) \<and>
     required m ''output_format'' (validate_enum TextOutputFormat_value TextOutputFormat_members)
       = Inr (output_format x) \<and>
     with_default m ''model'' validate_str ''gemini-3-pro-preview'' = Inr (model x) \<and>
     with_default m ''output_language''
       (validate_enum TextOutputLanguage_value TextOutputLanguage_members) AUTO
       = Inr (output_language x)"
  unfolding TextProcessingOptions_validate_fields_def ap_Inr_iff TextProcessingOptions.make_def
  by (cases x) auto

lemma isl_TextProcessingOptions_validate_fields:
  "isl (TextProcessingOptions_validate_fields m) \<longleftrightarrow>
     isl (required m ''input_type'' (validate_enum TextInputType_value TextInputType_members)) \<or>
     isl (required m ''output_format'' (validate_enum TextOutputFormat_value TextOutputFormat_members)) \<or>
     isl (with_default m ''model'' validate_str ''gemini-3-pro-preview'') \<or>
     isl (with_default m ''output_language''
       (validate_enum TextOutputLanguage_value TextOutputLanguage_members) AUTO)"
  by (simp add: TextProcessingOptions_validate_fields_def isl_ap)

lemma TextTrigger_validate_fields_iff:
  "TextTrigger_validate_fields m = Inr x \<longleftrightarrow>
     with_default m ''version'' (validate_literal [''1.0'']) ''1.0'' = Inr (TextTrigger.version x) \<and>
     required m ''text_session'' TextSessionRef_model_validate = Inr (text_session x) \<and>
     required m ''processing_options'' TextProcessingOptions_model_validate
       = Inr (processing_options x) \<and>
     with_default m ''visibility'' (validate_enum TextVisibility_value TextVisibility_members) PRIVATE
       = Inr (visibility x) \<and>
     with_default m ''source'' (validate_literal [''mcp-generate'']) ''mcp-generate'' = Inr (source x) \<and>
     with_default m ''project_id'' (optional validate_str) None = Inr (project_id x) \<and>
     with_default m ''name'' (optional validate_str) None = Inr (name x)"
  unfolding TextTrigger_validate_fields_def ap_Inr_iff TextTrigger.make_def
  by (cases x) auto

lemma TextGenerateResponse_validate_fields_iff:
  "TextGenerateResponse_validate_fields L m = Inr x \<longleftrightarrow>
     required m ''status'' (validate_literal [''accepted'', ''error''])
       = Inr (TextGenerateResponse.status x) \<and>
     required m ''session_id'' validate_str = Inr (TextGenerateResponse.session_id x) \<and>
     required m ''message'' validate_str = Inr (message x) \<and>
     with_default m ''estimated_seconds'' (optional (validate_int L)) None
       = Inr (estimated_seconds x)"
  unfolding TextGenerateResponse_validate_fields_def ap_Inr_iff TextGenerateResponse.make_def
  by (cases x) auto

lemma accepts_output_language_iff:
  "accepts_output_language s \<longleftrightarrow> s \<in> set (map TextOutputLanguage_value TextOutputLanguage_members)"
  by (simp add: accepts_output_language_def TextProcessingOptions_model_validate_def
      isl_forbid_extra TextProcessingOptions_fields_def isl_TextProcessingOptions_validate_fields
      isl_required isl_with_default isl_validate_enum
      TextInputType_members_def TextOutputFormat_members_def)

subsection \<open>The example trigger\<close>

lemma examples_accepted:
  "length c = 52 \<Longrightarrow>
     TextSessionRef_model_validate (example_text_session c) = Inr (example_text_session_record c)"
  "TextProcessingOptions_model_validate example_processing_options
     = Inr example_processing_options_record"
  "length c = 52 \<Longrightarrow>
     TextTrigger_model_validate (example_trigger c) = Inr (example_trigger_record c)"
  "TextGenerateResponse_model_validate L example_response = Inr example_response_record"
proof -
  show p: "TextProcessingOptions_model_validate example_processing_options
      = Inr example_processing_options_record"
    by (simp add: example_processing_options_def example_processing_options_record_def
        TextProcessingOptions_model_validate_def forbid_extra_Inr_iff
        TextProcessingOptions_fields_def TextProcessingOptions_validate_fields_iff
        required_Inr_iff with_default_Inr_iff validate_enum_Inr_iff
        TextInputType_members_def TextOutputFormat_members_def)
  show "TextGenerateResponse_model_validate L example_response = Inr example_response_record"
    by (simp add: example_response_def example_response_record_def
        TextGenerateResponse_model_validate_def forbid_extra_Inr_iff
        TextGenerateResponse_fields_def TextGenerateResponse_validate_fields_iff
        required_Inr_iff with_default_Inr_iff validate_literal_Inr_iff)
  assume len: "length c = 52"
  then show s: "TextSessionRef_model_validate (example_text_session c)
      = Inr (example_text_session_record c)"
    by (simp add: example_text_session_def example_text_session_record_def
        TextSessionRef_model_validate_def forbid_extra_Inr_iff
        TextSessionRef_fields_def TextSessionRef_validate_fields_iff required_Inr_iff
        with_default_Inr_iff validate_str_len_Inr_iff)
  show "TextTrigger_model_validate (example_trigger c) = Inr (example_trigger_record c)"
    by (simp add: example_trigger_def example_trigger_record_def TextTrigger_model_validate_def
        forbid_extra_Inr_iff TextTrigger_fields_def TextTrigger_validate_fields_iff
        required_Inr_iff with_default_Inr_iff s p)
qed


text \<open>
  Claim C4. A \<open>TextTrigger\<close> built from the text session \<^verbatim>\<open>{org_id: "o1", user_id: "u1",
  session_id: "s1", content: c}\<close> with \<open>c\<close> of 52 characters and the processing options
  \<^verbatim>\<open>{input_type: "workflow_recording", output_format: "workflow_guide"}\<close>, every other
  field omitted, is accepted, and the instance has version \<^verbatim>\<open>"1.0"\<close>, source
  \<^verbatim>\<open>"mcp-generate"\<close>, visibility \<^verbatim>\<open>"private"\<close> and output language \<^verbatim>\<open>"auto"\<close>.
\<close>

theorem example_trigger_defaults:
  "length c = 52 \<Longrightarrow>
   \<exists>t. TextTrigger_model_validate (example_trigger c) = Inr t \<and>
       TextTrigger.version t = ''1.0'' \<and>
       source t = ''mcp-generate'' \<and>
       TextVisibility_value (visibility t) = ''private'' \<and>
       TextOutputLanguage_value (output_language (processing_options t)) = ''auto''"
proof -
  assume "length c = 52"
  then have "TextTrigger_model_validate (example_trigger c) = Inr (example_trigger_record c)"
    by (rule examples_accepted)
  then show ?thesis
    by (simp add: example_trigger_record_def example_processing_options_record_def)
qed

theorem example_trigger_defaults_witness:
  "length ''Open the billing page, then export the March report.'' = 52 \<and>
   (\<exists>t. TextTrigger_model_validate
          (example_trigger ''Open the billing page, then export the March report.'') = Inr t \<and>
       TextTrigger.version t = ''1.0'' \<and>
       source t = ''mcp-generate'' \<and>
       TextVisibility_value (visibility t) = ''private'' \<and>
       TextOutputLanguage_value (output_language (processing_options t)) = ''auto'')"
  using example_trigger_defaults [of "''Open the billing page, then export the March report.''"]
  by simp

subsection \<open>The values of \<open>output_language\<close>\<close>

text \<open>
  Claim C7 as stated: the accepted values are \<^verbatim>\<open>"auto"\<close> and twenty language codes.
  No list of twenty distinct codes other than \<^verbatim>\<open>"auto"\<close> describes what is accepted:
  the enumeration has twenty members, \<^verbatim>\<open>AUTO\<close> among them.
\<close>

theorem twenty_codes_plus_auto_counterexample:
  "\<not> (\<exists>codes. distinct codes \<and> length codes = 20 \<and> ''auto'' \<notin> set codes \<and>
        (\<forall>s. accepts_output_language s \<longleftrightarrow> s = ''auto'' \<or> s \<in> set codes))"
proof
  assume "\<exists>codes. distinct codes \<and> length codes = 20 \<and> ''auto'' \<notin> set codes \<and>
        (\<forall>s. accepts_output_language s \<longleftrightarrow> s = ''auto'' \<or> s \<in> set codes)"
  then obtain codes where d: "distinct codes" and l: "length codes = 20"
    and a: "''auto'' \<notin> set codes"
    and acc: "\<And>s. accepts_output_language s \<longleftrightarrow> s = ''auto'' \<or> s \<in> set codes"
    by blast
  have "set (map TextOutputLanguage_value TextOutputLanguage_members) = insert ''auto'' (set codes)"
    using acc by (auto simp: accepts_output_language_iff)
  then have "card (set (map TextOutputLanguage_value TextOutputLanguage_members))
      = card (insert ''auto'' (set codes))"
    by simp
  also have "\<dots> = 21"
    using d l a by (simp add: distinct_card)
  finally have "card (set (map TextOutputLanguage_value TextOutputLanguage_members)) = 21" .
  moreover have "card (set (map TextOutputLanguage_value TextOutputLanguage_members)) \<le> 20"
    using card_length [of "map TextOutputLanguage_value TextOutputLanguage_members"]
    by (simp add: TextOutputLanguage_members_def)
  ultimately show False
    by simp
qed

text \<open>
  Claim C7, amended. The accepted values of \<open>output_language\<close> are exactly the twenty
  values of \<open>TextOutputLanguage\<close>, which are \<^verbatim>\<open>"auto"\<close> and nineteen language codes; a
  structure whose \<open>output_language\<close> is any other string fails to construct a
  \<open>TextProcessingOptions\<close>, whatever its other fields are.
\<close>

theorem output_language_closed_set:
  "(accepts_output_language s \<longleftrightarrow>
      s \<in> set (map TextOutputLanguage_value TextOutputLanguage_members)) \<and>
   (map_of d ''output_language'' = Some (PStr s) \<and>
      s \<notin> set (map TextOutputLanguage_value TextOutputLanguage_members)
      \<longrightarrow> isl (TextProcessingOptions_model_validate (PDict d))) \<and>
   map TextOutputLanguage_value TextOutputLanguage_members =
     [''auto'', ''en'', ''es'', ''fr'', ''de'', ''pt'', ''zh'', ''ja'', ''ko'', ''ar'',
      ''he'', ''ru'', ''it'', ''nl'', ''pl'', ''tr'', ''vi'', ''th'', ''id'', ''hi''] \<and>
   distinct (map TextOutputLanguage_value TextOutputLanguage_members) \<and>
   length (removeAll ''auto'' (map TextOutputLanguage_value TextOutputLanguage_members)) = 19"
proof (intro conjI impI)
  show "accepts_output_language s \<longleftrightarrow>
      s \<in> set (map TextOutputLanguage_value TextOutputLanguage_members)"
    by (rule accepts_output_language_iff)
next
  assume "map_of d ''output_language'' = Some (PStr s) \<and>
      s \<notin> set (map TextOutputLanguage_value TextOutputLanguage_members)"
  then have "isl (with_default (map_of d) ''output_language''
       (validate_enum TextOutputLanguage_value TextOutputLanguage_members) AUTO)"
    by (simp add: isl_with_default isl_validate_enum)
  then show "isl (TextProcessingOptions_model_validate (PDict d))"
    by (simp add: TextProcessingOptions_model_validate_def isl_forbid_extra
        isl_TextProcessingOptions_validate_fields)
qed (simp_all add: TextOutputLanguage_members_def)

theorem output_language_closed_set_witness:
  "\<not> accepts_output_language ''xx'' \<and> accepts_output_language ''he'' \<and>
   isl (TextProcessingOptions_model_validate (PDict
     [(''input_type'', PStr ''workflow_recording''),
      (''output_format'', PStr ''workflow_guide''),
      (''output_language'', PStr ''english'')]))"
  using output_language_closed_set [of "''xx''"]
    output_language_closed_set [of "''he''"]
    output_language_closed_set [of "''english''" "[(''input_type'', PStr ''workflow_recording''),
      (''output_format'', PStr ''workflow_guide''),
      (''output_language'', PStr ''english'')]"]
  by (simp add: TextOutputLanguage_members_def)

subsection \<open>The session record\<close>

lemma required_upd:
  "required (m(k \<mapsto> v)) k' val = (if k' = k then at_loc k (val v) else required m k' val)"
  by (simp add: required_def)

lemma with_default_upd:
  "with_default (m(k \<mapsto> v)) k' val dflt =
     (if k' = k then at_loc k (val v) else with_default m k' val dflt)"
  by (simp add: with_default_def)

lemma PersistentSession_validate_fields_iff:
  "PersistentSession_validate_fields L m = Inr x \<longleftrightarrow>
     required m ''session_id'' validate_str = Inr (session_id x) \<and>
     required m ''user_id'' validate_str = Inr (user_id x) \<and>
     required m ''org_id'' validate_str = Inr (org_id x) \<and>
     required m ''device_fingerprint'' validate_str = Inr (device_fingerprint x) \<and>
     required m ''created_at'' validate_str = Inr (created_at x) \<and>
     required m ''started_at'' validate_str = Inr (started_at x) \<and>
     with_default m ''stopped_at'' (optional validate_str) None = Inr (stopped_at x) \<and>
     with_default m ''completed_at'' (optional validate_str) None = Inr (completed_at x) \<and>
     required m ''updated_at'' validate_str = Inr (updated_at x) \<and>
     required m ''status'' validate_str = Inr (status x) \<and>
     with_default m ''substatus'' (optional validate_str) None = Inr (substatus x) \<and>
     required m ''presence_ticket_jti'' validate_str = Inr (presence_ticket_jti x) \<and>
     with_default m ''processing_id'' (optional validate_str) None = Inr (processing_id x) \<and>
     with_default m ''firestore_path'' (optional validate_str) None = Inr (firestore_path x) \<and>
     with_default m ''processing_time_seconds'' (optional (validate_float L)) None
       = Inr (processing_time_seconds x) \<and>
     with_default m ''stopped_by_user_id'' (optional validate_str) None = Inr (stopped_by_user_id x) \<and>
     with_default m ''stop_method'' (optional validate_str) None = Inr (stop_method x) \<and>
     with_default m ''error'' (optional validate_str) None = Inr (error x) \<and>
     with_default m ''error_code'' (optional validate_str) None = Inr (error_code x) \<and>
     with_default m ''retry_count'' (validate_int L) 0 = Inr (retry_count x) \<and>
     with_default m ''version'' (validate_int L) 1 = Inr (version x) \<and>
     required m ''ttl_expires_at'' validate_str = Inr (ttl_expires_at x)"
  unfolding PersistentSession_validate_fields_def ap_Inr_iff PersistentSession.make_def
  by (cases x) auto

lemma PersistentSession_model_validate_update:
  "PersistentSession_model_validate L (PDict (AList.update k v d))
     = PersistentSession_validate_fields L ((map_of d)(k \<mapsto> v))"
  by (simp add: PersistentSession_model_validate_def update_conv')

lemma PersistentSession_model_validate_Inr_iff:
  "PersistentSession_model_validate L (PDict d) = Inr x
     \<longleftrightarrow> PersistentSession_validate_fields L (map_of d) = Inr x"
  by (simp add: PersistentSession_model_validate_def)

lemma failed_session_accepted:
  "PersistentSession_model_validate L (PDict failed_session) = Inr failed_session_record"
  by (simp add: PersistentSession_model_validate_def failed_session_def
      failed_session_record_def PersistentSession_validate_fields_iff required_Inr_iff
      with_default_Inr_iff)

lemma validate_int_PInt: "validate_int L (PInt i) = Inr i"
  by (simp add: validate_int_def)

lemma optional_validate_float_PFloat: "optional (validate_float L) (PFloat f) = Inr (Some f)"
  by (simp add: optional_def validate_float_def)

lemma optional_validate_str_PStr: "optional validate_str (PStr s) = Inr (Some s)"
  by (simp add: optional_def)

subsection \<open>\<open>retry_count\<close>\<close>

text \<open>
  Claim C5 as stated: a session record with status \<^verbatim>\<open>"failed"\<close> and \<open>retry_count\<close>
  \<open>-1\<close> is rejected. The field is declared \<^verbatim>\<open>retry_count: int = 0\<close>, with no lower
  bound, and the record is accepted with \<open>retry_count = -1\<close>.
\<close>

theorem negative_retry_count_counterexample:
  "PersistentSession_model_validate exact_only
     (PDict (AList.update ''retry_count'' (PInt (- 1)) failed_session))
   = Inr (failed_session_record\<lparr>retry_count := - 1\<rparr>)"
  by (simp add: PersistentSession_model_validate_def failed_session_def
      failed_session_record_def PersistentSession_validate_fields_iff required_Inr_iff
      with_default_Inr_iff validate_int_PInt)

text \<open>
  Claim C5, amended. \<open>retry_count\<close> is an integer that defaults to 0: a structure that
  is accepted stays accepted when \<open>retry_count\<close> is set to any integer, negative ones
  included, and the instance holds that integer; when the field is omitted the
  instance has \<open>retry_count = 0\<close>.
\<close>

theorem retry_count_integer_default_zero:
  "(PersistentSession_model_validate L (PDict d) = Inr x \<longrightarrow>
      PersistentSession_model_validate L (PDict (AList.update ''retry_count'' (PInt i) d))
        = Inr (x\<lparr>retry_count := i\<rparr>)) \<and>
   (PersistentSession_model_validate L (PDict d) = Inr x \<and> map_of d ''retry_count'' = None \<longrightarrow>
      retry_count x = 0)"
proof (intro conjI impI)
  assume "PersistentSession_model_validate L (PDict d) = Inr x"
  then show "PersistentSession_model_validate L (PDict (AList.update ''retry_count'' (PInt i) d))
        = Inr (x\<lparr>retry_count := i\<rparr>)"
    unfolding PersistentSession_model_validate_update PersistentSession_model_validate_Inr_iff
      PersistentSession_validate_fields_iff
    by (simp add: required_upd with_default_upd at_loc_Inr_iff validate_int_PInt)
next
  assume a: "PersistentSession_model_validate L (PDict d) = Inr x \<and> map_of d ''retry_count'' = None"
  then have "with_default (map_of d) ''retry_count'' (validate_int L) 0 = Inr (retry_count x)"
    by (simp add: PersistentSession_model_validate_Inr_iff PersistentSession_validate_fields_iff)
  moreover have "with_default (map_of d) ''retry_count'' (validate_int L) 0 = Inr 0"
    using a by (simp add: with_default_def)
  ultimately show "retry_count x = 0"
    by simp
qed

theorem retry_count_integer_default_zero_witness:
  "PersistentSession_model_validate exact_only (PDict failed_session) = Inr failed_session_record \<and>
   map_of failed_session ''retry_count'' = None \<and>
   PersistentSession_model_validate exact_only
     (PDict (AList.update ''retry_count'' (PInt (- 1)) failed_session))
     = Inr (failed_session_record\<lparr>retry_count := - 1\<rparr>) \<and>
   retry_count failed_session_record = 0"
  using retry_count_integer_default_zero [of exact_only failed_session failed_session_record "- 1"]
    failed_session_accepted [of exact_only]
  by (simp add: failed_session_def)

subsection \<open>Setting one field of an accepted session record\<close>

lemma PersistentSession_set_str:
  assumes "PersistentSession_model_validate L (PDict d) = Inr x"
  shows "PersistentSession_model_validate L (PDict (AList.update ''session_id'' (PStr s) d))
           = Inr (x\<lparr>session_id := s\<rparr>)"
    and "PersistentSession_model_validate L (PDict (AList.update ''user_id'' (PStr s) d))
           = Inr (x\<lparr>user_id := s\<rparr>)"
    and "PersistentSession_model_validate L (PDict (AList.update ''org_id'' (PStr s) d))
           = Inr (x\<lparr>org_id := s\<rparr>)"
    and "PersistentSession_model_validate L (PDict (AList.update ''presence_ticket_jti'' (PStr s) d))
           = Inr (x\<lparr>presence_ticket_jti := s\<rparr>)"
    and "PersistentSession_model_validate L (PDict (AList.update ''status'' (PStr s) d))
           = Inr (x\<lparr>status := s\<rparr>)"
    and "PersistentSession_model_validate L (PDict (AList.update ''created_at'' (PStr s) d))
           = Inr (x\<lparr>created_at := s\<rparr>)"
    and "PersistentSession_model_validate L (PDict (AList.update ''started_at'' (PStr s) d))
           = Inr (x\<lparr>started_at := s\<rparr>)"
    and "PersistentSession_model_validate L (PDict (AList.update ''stopped_at'' (PStr s) d))
           = Inr (x\<lparr>stopped_at := Some s\<rparr>)"
    and "PersistentSession_model_validate L (PDict (AList.update ''completed_at'' (PStr s) d))
           = Inr (x\<lparr>completed_at := Some s\<rparr>)"
    and "PersistentSession_model_validate L (PDict (AList.update ''updated_at'' (PStr s) d))
           = Inr (x\<lparr>updated_at := s\<rparr>)"
    and "PersistentSession_model_validate L (PDict (AList.update ''ttl_expires_at'' (PStr s) d))
           = Inr (x\<lparr>ttl_expires_at := s\<rparr>)"
  using assms
  unfolding PersistentSession_model_validate_update PersistentSession_model_validate_Inr_iff
    PersistentSession_validate_fields_iff
  by (simp_all add: required_upd with_default_upd at_loc_Inr_iff optional_validate_str_PStr)

lemma PersistentSession_set_float:
  assumes "PersistentSession_model_validate L (PDict d) = Inr x"
  shows "PersistentSession_model_validate L
           (PDict (AList.update ''processing_time_seconds'' (PFloat f) d))
           = Inr (x\<lparr>processing_time_seconds := Some f\<rparr>)"
  using assms
  unfolding PersistentSession_model_validate_update PersistentSession_model_validate_Inr_iff
    PersistentSession_validate_fields_iff
  by (simp add: required_upd with_default_upd at_loc_Inr_iff optional_validate_float_PFloat)

lemma PersistentSession_required_str:
  assumes "PersistentSession_model_validate L (PDict d) = Inr x"
  shows "map_of d ''session_id'' = Some (PStr (session_id x))"
    and "map_of d ''user_id'' = Some (PStr (user_id x))"
    and "map_of d ''org_id'' = Some (PStr (org_id x))"
    and "map_of d ''presence_ticket_jti'' = Some (PStr (presence_ticket_jti x))"
  using assms
  unfolding PersistentSession_model_validate_Inr_iff PersistentSession_validate_fields_iff
    required_Inr_iff validate_str_Inr_iff
  by simp_all

subsection \<open>The identifiers of a session record\<close>

text \<open>
  Claim C6 as stated: in every accepted \<open>PersistentSession\<close> the fields \<open>session_id\<close>,
  \<open>user_id\<close>, \<open>org_id\<close> and \<open>presence_ticket_jti\<close> are non-empty, and no operation
  changes them once the record is created. The four are declared as plain \<^verbatim>\<open>str\<close>, and a
  record in which all four are the empty string is accepted; the class is not frozen, and
  the assignment \<^verbatim>\<open>p.session_id = "changed"\<close> to an accepted record changes its
  \<open>session_id\<close> from \<^verbatim>\<open>"s1"\<close>.
\<close>

theorem identifiers_empty_and_reassigned_counterexample:
  "PersistentSession_model_validate exact_only
     (PDict (AList.update ''session_id'' (PStr '''')
            (AList.update ''user_id'' (PStr '''')
            (AList.update ''org_id'' (PStr '''')
            (AList.update ''presence_ticket_jti'' (PStr '''') failed_session)))))
   = Inr (failed_session_record
           \<lparr>session_id := '''', user_id := '''', org_id := '''', presence_ticket_jti := ''''\<rparr>) \<and>
   PersistentSession_model_validate exact_only (PDict failed_session)
     = Inr failed_session_record \<and>
   session_id failed_session_record = ''s1'' \<and>
   PersistentSession_setattr (Set_session_id ''changed'') failed_session_record
     = Inr (failed_session_record\<lparr>session_id := ''changed''\<rparr>) \<and>
   session_id (failed_session_record\<lparr>session_id := ''changed''\<rparr>) = ''changed''"
  by (simp add: PersistentSession_model_validate_def failed_session_def
      failed_session_record_def PersistentSession_validate_fields_iff required_Inr_iff
      with_default_Inr_iff assign_def PersistentSession_frozen_def)

text \<open>
  Claim C6, amended. In every accepted \<open>PersistentSession\<close> the fields \<open>session_id\<close>,
  \<open>user_id\<close>, \<open>org_id\<close> and \<open>presence_ticket_jti\<close> are the strings the structure
  supplied, and any string is accepted for each of them, the empty one included. They
  are not immutable: the model is not frozen, and assigning any string to one of them on
  a constructed record succeeds and replaces the value.
\<close>

theorem identifiers_are_the_supplied_strings:
  "(PersistentSession_model_validate L (PDict d) = Inr x \<longrightarrow>
      map_of d ''session_id'' = Some (PStr (session_id x)) \<and>
      map_of d ''user_id'' = Some (PStr (user_id x)) \<and>
      map_of d ''org_id'' = Some (PStr (org_id x)) \<and>
      map_of d ''presence_ticket_jti'' = Some (PStr (presence_ticket_jti x))) \<and>
   (PersistentSession_model_validate L (PDict d) = Inr x \<longrightarrow>
      PersistentSession_model_validate L (PDict (AList.update ''session_id'' (PStr s) d))
        = Inr (x\<lparr>session_id := s\<rparr>) \<and>
      PersistentSession_model_validate L (PDict (AList.update ''user_id'' (PStr s) d))
        = Inr (x\<lparr>user_id := s\<rparr>) \<and>
      PersistentSession_model_validate L (PDict (AList.update ''org_id'' (PStr s) d))
        = Inr (x\<lparr>org_id := s\<rparr>) \<and>
      PersistentSession_model_validate L (PDict (AList.update ''presence_ticket_jti'' (PStr s) d))
        = Inr (x\<lparr>presence_ticket_jti := s\<rparr>)) \<and>
   PersistentSession_setattr (Set_session_id s) x = Inr (x\<lparr>session_id := s\<rparr>) \<and>
   PersistentSession_setattr (Set_user_id s) x = Inr (x\<lparr>user_id := s\<rparr>) \<and>
   PersistentSession_setattr (Set_org_id s) x = Inr (x\<lparr>org_id := s\<rparr>) \<and>
   PersistentSession_setattr (Set_presence_ticket_jti s) x
     = Inr (x\<lparr>presence_ticket_jti := s\<rparr>)"
  using PersistentSession_required_str [of L d x] PersistentSession_set_str(1-4) [of L d x s]
  by (simp add: assign_def PersistentSession_frozen_def)

theorem identifiers_are_the_supplied_strings_witness:
  "PersistentSession_model_validate exact_only (PDict failed_session) = Inr failed_session_record \<and>
   map_of failed_session ''session_id'' = Some (PStr ''s1'') \<and>
   map_of failed_session ''user_id'' = Some (PStr ''u1'') \<and>
   map_of failed_session ''org_id'' = Some (PStr ''o1'') \<and>
   map_of failed_session ''presence_ticket_jti'' = Some (PStr ''jti1'') \<and>
   PersistentSession_model_validate exact_only
       (PDict (AList.update ''session_id'' (PStr '''') failed_session))
     = Inr (failed_session_record\<lparr>session_id := ''''\<rparr>) \<and>
   PersistentSession_model_validate exact_only
       (PDict (AList.update ''user_id'' (PStr '''') failed_session))
     = Inr (failed_session_record\<lparr>user_id := ''''\<rparr>) \<and>
   PersistentSession_model_validate exact_only
       (PDict (AList.update ''org_id'' (PStr '''') failed_session))
     = Inr (failed_session_record\<lparr>org_id := ''''\<rparr>) \<and>
   PersistentSession_model_validate exact_only
       (PDict (AList.update ''presence_ticket_jti'' (PStr '''') failed_session))
     = Inr (failed_session_record\<lparr>presence_ticket_jti := ''''\<rparr>) \<and>
   PersistentSession_setattr (Set_session_id '''') failed_session_record
     = Inr (failed_session_record\<lparr>session_id := ''''\<rparr>)"
  using identifiers_are_the_supplied_strings
      [of exact_only failed_session failed_session_record "''''"]
    failed_session_accepted [of exact_only]
  by (simp add: failed_session_record_def)

subsection \<open>\<open>processing_time_seconds\<close>\<close>

text \<open>
  Claim C8 as stated: a present \<open>processing_time_seconds\<close> is non-negative, and a
  negative one is rejected. The field is declared \<^verbatim>\<open>Optional[float] = None\<close>, with no
  lower bound, and a record with the value \<open>-1.5\<close> is accepted.
\<close>

theorem negative_processing_time_counterexample:
  "PersistentSession_model_validate exact_only
     (PDict (AList.update ''processing_time_seconds'' (PFloat (- 3 / 2)) failed_session))
   = Inr (failed_session_record\<lparr>processing_time_seconds := Some (- 3 / 2)\<rparr>) \<and>
   (- 3 / 2 :: rat) < 0"
  by (simp add: PersistentSession_model_validate_def failed_session_def
      failed_session_record_def PersistentSession_validate_fields_iff required_Inr_iff
      with_default_Inr_iff optional_validate_float_PFloat)

text \<open>
  Claim C8, amended. A present \<open>processing_time_seconds\<close> is a float of either sign: an
  accepted structure stays accepted when the field is set to any float, and the instance
  holds the float that was supplied.
\<close>

theorem processing_time_any_float:
  "(PersistentSession_model_validate L (PDict d) = Inr x \<longrightarrow>
      PersistentSession_model_validate L
          (PDict (AList.update ''processing_time_seconds'' (PFloat f) d))
        = Inr (x\<lparr>processing_time_seconds := Some f\<rparr>)) \<and>
   (PersistentSession_model_validate L (PDict d) = Inr x \<and>
      map_of d ''processing_time_seconds'' = Some (PFloat f) \<longrightarrow>
      processing_time_seconds x = Some f)"
proof (intro conjI impI)
  assume "PersistentSession_model_validate L (PDict d) = Inr x"
  then show "PersistentSession_model_validate L
          (PDict (AList.update ''processing_time_seconds'' (PFloat f) d))
        = Inr (x\<lparr>processing_time_seconds := Some f\<rparr>)"
    by (rule PersistentSession_set_float)
next
  assume a: "PersistentSession_model_validate L (PDict d) = Inr x \<and>
      map_of d ''processing_time_seconds'' = Some (PFloat f)"
  then have "with_default (map_of d) ''processing_time_seconds'' (optional (validate_float L)) None
      = Inr (processing_time_seconds x)"
    by (simp add: PersistentSession_model_validate_Inr_iff PersistentSession_validate_fields_iff)
  moreover have "with_default (map_of d) ''processing_time_seconds''
      (optional (validate_float L)) None = Inr (Some f)"
    using a by (simp add: with_default_def optional_validate_float_PFloat at_loc_Inr_iff)
  ultimately show "processing_time_seconds x = Some f"
    by simp
qed

theorem processing_time_any_float_witness:
  "PersistentSession_model_validate exact_only (PDict failed_session) = Inr failed_session_record \<and>
   PersistentSession_model_validate exact_only
       (PDict (AList.update ''processing_time_seconds'' (PFloat (- 3 / 2)) failed_session))
     = Inr (failed_session_record\<lparr>processing_time_seconds := Some (- 3 / 2)\<rparr>) \<and>
   map_of (AList.update ''processing_time_seconds'' (PFloat (- 3 / 2)) failed_session)
       ''processing_time_seconds'' = Some (PFloat (- 3 / 2)) \<and>
   processing_time_seconds (failed_session_record\<lparr>processing_time_seconds := Some (- 3 / 2)\<rparr>)
     = Some (- 3 / 2)"
  using processing_time_any_float [of exact_only failed_session failed_session_record "- 3 / 2"]
    processing_time_any_float [of exact_only
      "AList.update ''processing_time_seconds'' (PFloat (- 3 / 2)) failed_session"
      "failed_session_record\<lparr>processing_time_seconds := Some (- 3 / 2)\<rparr>" "- 3 / 2"]
    failed_session_accepted [of exact_only]
  by (simp add: update_conv')

subsection \<open>\<open>status\<close> and the date-time fields\<close>

text \<open>
  Claim C9. The schema does not restrict \<open>status\<close> to \<^verbatim>\<open>recording\<close>, \<^verbatim>\<open>processing\<close>,
  \<^verbatim>\<open>completed\<close> and \<^verbatim>\<open>failed\<close>: a structure that is valid stays valid when its status
  is replaced by any string \<open>s\<close>, and the instance has \<open>status = s\<close>.
\<close>

theorem status_is_a_free_string:
  "PersistentSession_model_validate L (PDict d) = Inr x \<Longrightarrow>
   PersistentSession_model_validate L (PDict (AList.update ''status'' (PStr s) d))
     = Inr (x\<lparr>status := s\<rparr>)"
  by (rule PersistentSession_set_str(5))

theorem status_is_a_free_string_witness:
  "PersistentSession_model_validate exact_only (PDict failed_session) = Inr failed_session_record \<and>
   PersistentSession_model_validate exact_only
       (PDict (AList.update ''status'' (PStr ''archived'') failed_session))
     = Inr (failed_session_record\<lparr>status := ''archived''\<rparr>)"
  using status_is_a_free_string [of exact_only failed_session failed_session_record "''archived''"]
    failed_session_accepted [of exact_only]
  by simp

text \<open>
  Claim C10. The date-time fields \<open>created_at\<close>, \<open>started_at\<close>, \<open>stopped_at\<close>,
  \<open>completed_at\<close>, \<open>updated_at\<close> and \<open>ttl_expires_at\<close> are not checked for any format:
  a structure that is valid stays valid when one of them is replaced by any string \<open>s\<close>,
  the empty string and text that is no ISO-8601 date-time included.
\<close>

theorem date_times_are_free_strings:
  "PersistentSession_model_validate L (PDict d) = Inr x \<Longrightarrow>
   PersistentSession_model_validate L (PDict (AList.update ''created_at'' (PStr s) d))
     = Inr (x\<lparr>created_at := s\<rparr>) \<and>
   PersistentSession_model_validate L (PDict (AList.update ''started_at'' (PStr s) d))
     = Inr (x\<lparr>started_at := s\<rparr>) \<and>
   PersistentSession_model_validate L (PDict (AList.update ''stopped_at'' (PStr s) d))
     = Inr (x\<lparr>stopped_at := Some s\<rparr>) \<and>
   PersistentSession_model_validate L (PDict (AList.update ''completed_at'' (PStr s) d))
     = Inr (x\<lparr>completed_at := Some s\<rparr>) \<and>
   PersistentSession_model_validate L (PDict (AList.update ''updated_at'' (PStr s) d))
     = Inr (x\<lparr>updated_at := s\<rparr>) \<and>
   PersistentSession_model_validate L (PDict (AList.update ''ttl_expires_at'' (PStr s) d))
     = Inr (x\<lparr>ttl_expires_at := s\<rparr>)"
  using PersistentSession_set_str(6-11) [of L d x s]
  by blast

theorem date_times_are_free_strings_witness:
  "PersistentSession_model_validate exact_only (PDict failed_session) = Inr failed_session_record \<and>
   PersistentSession_model_validate exact_only
       (PDict (AList.update ''created_at'' (PStr '''') failed_session))
     = Inr (failed_session_record\<lparr>created_at := ''''\<rparr>) \<and>
   PersistentSession_model_validate exact_only
       (PDict (AList.update ''stopped_at'' (PStr ''yesterday, around noon'') failed_session))
     = Inr (failed_session_record\<lparr>stopped_at := Some ''yesterday, around noon''\<rparr>) \<and>
   PersistentSession_model_validate exact_only
       (PDict (AList.update ''ttl_expires_at'' (PStr ''never'') failed_session))
     = Inr (failed_session_record\<lparr>ttl_expires_at := ''never''\<rparr>)"
  using date_times_are_free_strings [of exact_only failed_session failed_session_record "''''"]
    date_times_are_free_strings [of exact_only failed_session failed_session_record
      "''yesterday, around noon''"]
    date_times_are_free_strings [of exact_only failed_session failed_session_record "''never''"]
    failed_session_accepted [of exact_only]
  by simp

subsection \<open>Closed and open schemas\<close>

lemma isl_TextTrigger_validate_fields:
  "isl (TextTrigger_validate_fields m) \<longleftrightarrow>
     isl (with_default m ''version'' (validate_literal [''1.0'']) ''1.0'') \<or>
     isl (required m ''text_session'' TextSessionRef_model_validate) \<or>
     isl (required m ''processing_options'' TextProcessingOptions_model_validate) \<or>
     isl (with_default m ''visibility''
            (validate_enum TextVisibility_value TextVisibility_members) PRIVATE) \<or>
     isl (with_default m ''source'' (validate_literal [''mcp-generate'']) ''mcp-generate'') \<or>
     isl (with_default m ''project_id'' (optional validate_str) None) \<or>
     isl (with_default m ''name'' (optional validate_str) None)"
  by (simp add: TextTrigger_validate_fields_def isl_ap)

lemma isl_TextGenerateResponse_validate_fields:
  "isl (TextGenerateResponse_validate_fields L m) \<longleftrightarrow>
     isl (required m ''status'' (validate_literal [''accepted'', ''error''])) \<or>
     isl (required m ''session_id'' validate_str) \<or>
     isl (required m ''message'' validate_str) \<or>
     isl (with_default m ''estimated_seconds'' (optional (validate_int L)) None)"
  by (simp add: TextGenerateResponse_validate_fields_def isl_ap)

lemma PersistentSession_ignores_undeclared:
  assumes "k \<notin> set PersistentSession_fields"
  shows "PersistentSession_model_validate L (PDict (AList.update k v d))
           = PersistentSession_model_validate L (PDict d)"
proof -
  have "required ((map_of d)(k \<mapsto> v)) k' val = required (map_of d) k' val"
    and "with_default ((map_of d)(k \<mapsto> v)) k' val' dflt = with_default (map_of d) k' val' dflt"
    if "k' \<in> set PersistentSession_fields" for k' and val :: "pyval \<Rightarrow> string result"
      and val' :: "pyval \<Rightarrow> 'a result" and dflt
    using that assms by (auto simp: required_def with_default_def)
  note keep = this
  show ?thesis
    unfolding PersistentSession_model_validate_update
    by (simp add: PersistentSession_model_validate_def PersistentSession_validate_fields_def
        keep PersistentSession_fields_def)
qed

text \<open>
  Claim C3. A structure that has a key \<open>k\<close> its schema does not declare fails to
  construct a \<open>TextSessionRef\<close>, a \<open>TextProcessingOptions\<close>, a \<open>TextTrigger\<close> or a
  \<open>TextGenerateResponse\<close>, whatever else it holds. A \<open>PersistentSession\<close> does not fail
  on that account: adding an undeclared key to a structure, or changing its value,
  leaves the result of the validation as it was.
\<close>

theorem closed_trigger_family_open_session_record:
  "(k \<in> fst ` set d \<and> k \<notin> set TextSessionRef_fields \<longrightarrow>
      isl (TextSessionRef_model_validate (PDict d))) \<and>
   (k \<in> fst ` set d \<and> k \<notin> set TextProcessingOptions_fields \<longrightarrow>
      isl (TextProcessingOptions_model_validate (PDict d))) \<and>
   (k \<in> fst ` set d \<and> k \<notin> set TextTrigger_fields \<longrightarrow>
      isl (TextTrigger_model_validate (PDict d))) \<and>
   (k \<in> fst ` set d \<and> k \<notin> set TextGenerateResponse_fields \<longrightarrow>
      isl (TextGenerateResponse_model_validate L (PDict d))) \<and>
   (k \<notin> set PersistentSession_fields \<longrightarrow>
      PersistentSession_model_validate L (PDict (AList.update k v d))
        = PersistentSession_model_validate L (PDict d))"
proof (intro conjI impI)
  assume "k \<notin> set PersistentSession_fields"
  then show "PersistentSession_model_validate L (PDict (AList.update k v d))
        = PersistentSession_model_validate L (PDict d)"
    by (rule PersistentSession_ignores_undeclared)
qed (auto simp: TextSessionRef_model_validate_def TextProcessingOptions_model_validate_def
    TextTrigger_model_validate_def TextGenerateResponse_model_validate_def isl_forbid_extra)

theorem closed_trigger_family_open_session_record_witness:
  "isl (TextSessionRef_model_validate (PDict
     [(''org_id'', PStr ''o1''), (''user_id'', PStr ''u1''), (''session_id'', PStr ''s1''),
      (''content'', PStr (replicate 52 CHR ''a'')), (''comment'', PStr ''x'')])) \<and>
   isl (TextProcessingOptions_model_validate (PDict
     [(''input_type'', PStr ''workflow_recording''), (''output_format'', PStr ''workflow_guide''),
      (''comment'', PStr ''x'')])) \<and>
   isl (TextTrigger_model_validate (PDict
     [(''text_session'', example_text_session (replicate 52 CHR ''a'')),
      (''processing_options'', example_processing_options),
      (''comment'', PStr ''x'')])) \<and>
   isl (TextGenerateResponse_model_validate exact_only (PDict
     [(''status'', PStr ''accepted''), (''session_id'', PStr ''s1''),
      (''message'', PStr ''queued''), (''comment'', PStr ''x'')])) \<and>
   PersistentSession_model_validate exact_only
     (PDict (AList.update ''comment'' (PStr ''x'') failed_session))
     = Inr failed_session_record"
  using
    closed_trigger_family_open_session_record [of "''comment''"
      "[(''org_id'', PStr ''o1''), (''user_id'', PStr ''u1''), (''session_id'', PStr ''s1''),
        (''content'', PStr (replicate 52 CHR ''a'')), (''comment'', PStr ''x'')]"
      exact_only "PStr ''x''"]
    closed_trigger_family_open_session_record [of "''comment''"
      "[(''input_type'', PStr ''workflow_recording''), (''output_format'', PStr ''workflow_guide''),
        (''comment'', PStr ''x'')]"
      exact_only "PStr ''x''"]
    closed_trigger_family_open_session_record [of "''comment''"
      "[(''text_session'', example_text_session (replicate 52 CHR ''a'')),
        (''processing_options'', example_processing_options),
        (''comment'', PStr ''x'')]"
      exact_only "PStr ''x''"]
    closed_trigger_family_open_session_record [of "''comment''"
      "[(''status'', PStr ''accepted''), (''session_id'', PStr ''s1''),
        (''message'', PStr ''queued''), (''comment'', PStr ''x'')]"
      exact_only "PStr ''x''"]
    closed_trigger_family_open_session_record [of "''comment''" failed_session
      exact_only "PStr ''x''"]
    failed_session_accepted [of exact_only]
  by (simp add: TextSessionRef_fields_def TextProcessingOptions_fields_def TextTrigger_fields_def
      TextGenerateResponse_fields_def PersistentSession_fields_def)

subsection \<open>Structures that satisfy the declared constraints are accepted\<close>

lemma not_isl_iff: "\<not> isl r \<longleftrightarrow> (\<exists>x. r = Inr x)"
  by (cases r) auto

lemma is_str_iff: "is_str v \<longleftrightarrow> (\<exists>s. v = PStr s)"
  by (cases v) auto

lemma is_int_iff: "is_int v \<longleftrightarrow> (\<exists>i. v = PInt i)"
  by (cases v) auto

lemma is_number_iff:
  "is_number v \<longleftrightarrow> (\<exists>f. v = PFloat f) \<or> (\<exists>i. v = PInt i \<and> \<bar>i\<bar> \<le> 2 ^ 53)"
  by (cases v) auto

lemma nonempty_str_iff: "nonempty_str v \<longleftrightarrow> (\<exists>s. v = PStr s \<and> s \<noteq> [])"
  by (cases v) auto

lemma str_of_length_iff:
  "str_of_length lo hi v \<longleftrightarrow> (\<exists>s. v = PStr s \<and> lo \<le> length s \<and> length s \<le> hi)"
  by (cases v) auto

lemma one_of_iff: "one_of allowed v \<longleftrightarrow> (\<exists>s. v = PStr s \<and> s \<in> set allowed)"
  by (cases v) auto

lemma only_keys_iff: "only_keys declared d \<longleftrightarrow> fst ` set d \<subseteq> set declared"
  by (auto simp: only_keys_def list_all_iff)

lemma present_required:
  assumes "present m k P" and "\<And>v. P v \<Longrightarrow> \<not> isl (val v)"
  shows "\<not> isl (required m k val)"
  using assms by (auto simp: present_def isl_required split: option.splits)

lemma absent_or_with_default:
  assumes "absent_or m k P" and "\<And>v. P v \<Longrightarrow> \<not> isl (val v)"
  shows "\<not> isl (with_default m k val dflt)"
  using assms by (auto simp: absent_or_def isl_with_default split: option.splits)

lemma is_str_accepted: "is_str v \<Longrightarrow> \<not> isl (validate_str v)"
  by (auto simp: is_str_iff)

lemma nullable_str_accepted: "nullable is_str v \<Longrightarrow> \<not> isl (optional validate_str v)"
  by (auto simp: nullable_def is_str_iff optional_def)

lemma is_int_accepted: "is_int v \<Longrightarrow> \<not> isl (validate_int L v)"
  by (auto simp: is_int_iff validate_int_def)

lemma nullable_int_accepted: "nullable is_int v \<Longrightarrow> \<not> isl (optional (validate_int L) v)"
  by (auto simp: nullable_def is_int_iff optional_def validate_int_def)

lemma nullable_float_accepted: "nullable is_number v \<Longrightarrow> \<not> isl (optional (validate_float L) v)"
  by (auto simp: nullable_def is_number_iff optional_def validate_float_def)

lemma nonempty_str_accepted: "nonempty_str v \<Longrightarrow> \<not> isl (validate_str_len 1 None v)"
  by (auto simp: nonempty_str_iff isl_validate_str_len)

lemma str_of_length_accepted:
  "str_of_length lo hi v \<Longrightarrow> \<not> isl (validate_str_len lo (Some hi) v)"
  by (auto simp: str_of_length_iff isl_validate_str_len)

lemma one_of_literal_accepted: "one_of allowed v \<Longrightarrow> \<not> isl (validate_literal allowed v)"
  by (auto simp: one_of_iff validate_literal_def)

lemma TextInputType_accepted:
  "one_of [''workflow_recording'', ''teaching_session''] v
     \<Longrightarrow> \<not> isl (validate_enum TextInputType_value TextInputType_members v)"
  by (auto simp: one_of_iff isl_validate_enum TextInputType_members_def)

lemma TextOutputFormat_accepted:
  "one_of [''workflow_guide'', ''knowledge_base''] v
     \<Longrightarrow> \<not> isl (validate_enum TextOutputFormat_value TextOutputFormat_members v)"
  by (auto simp: one_of_iff isl_validate_enum TextOutputFormat_members_def)

lemma TextOutputLanguage_accepted:
  "one_of [''auto'', ''en'', ''es'', ''fr'', ''de'', ''pt'', ''zh'', ''ja'', ''ko'', ''ar'',
           ''he'', ''ru'', ''it'', ''nl'', ''pl'', ''tr'', ''vi'', ''th'', ''id'', ''hi''] v
     \<Longrightarrow> \<not> isl (validate_enum TextOutputLanguage_value TextOutputLanguage_members v)"
  by (auto simp: one_of_iff isl_validate_enum TextOutputLanguage_members_def)

lemma TextVisibility_accepted:
  "one_of [''private'', ''org:view'', ''org:edit''] v
     \<Longrightarrow> \<not> isl (validate_enum TextVisibility_value TextVisibility_members v)"
  by (auto simp: one_of_iff isl_validate_enum TextVisibility_members_def)

lemma conforming_field_accepted:
  "present m k is_str \<Longrightarrow> \<not> isl (required m k validate_str)"
  "present m k nonempty_str \<Longrightarrow> \<not> isl (required m k (validate_str_len 1 None))"
  "present m k (str_of_length lo hi) \<Longrightarrow> \<not> isl (required m k (validate_str_len lo (Some hi)))"
  "present m k (one_of allowed) \<Longrightarrow> \<not> isl (required m k (validate_literal allowed))"
  "present m k (one_of [''workflow_recording'', ''teaching_session''])
     \<Longrightarrow> \<not> isl (required m k (validate_enum TextInputType_value TextInputType_members))"
  "present m k (one_of [''workflow_guide'', ''knowledge_base''])
     \<Longrightarrow> \<not> isl (required m k (validate_enum TextOutputFormat_value TextOutputFormat_members))"
  "absent_or m k is_str \<Longrightarrow> \<not> isl (with_default m k validate_str s)"
  "absent_or m k (nullable is_str) \<Longrightarrow> \<not> isl (with_default m k (optional validate_str) os)"
  "absent_or m k is_int \<Longrightarrow> \<not> isl (with_default m k (validate_int L) i)"
  "absent_or m k (nullable is_int)
     \<Longrightarrow> \<not> isl (with_default m k (optional (validate_int L)) oi)"
  "absent_or m k (nullable is_number)
     \<Longrightarrow> \<not> isl (with_default m k (optional (validate_float L)) orat)"
  "absent_or m k (one_of allowed) \<Longrightarrow> \<not> isl (with_default m k (validate_literal allowed) s)"
  "absent_or m k (one_of [''auto'', ''en'', ''es'', ''fr'', ''de'', ''pt'', ''zh'', ''ja'', ''ko'',
       ''ar'', ''he'', ''ru'', ''it'', ''nl'', ''pl'', ''tr'', ''vi'', ''th'', ''id'', ''hi''])
     \<Longrightarrow> \<not> isl (with_default m k
           (validate_enum TextOutputLanguage_value TextOutputLanguage_members) l)"
  "absent_or m k (one_of [''private'', ''org:view'', ''org:edit''])
     \<Longrightarrow> \<not> isl (with_default m k
           (validate_enum TextVisibility_value TextVisibility_members) vis)"
  by (erule present_required absent_or_with_default,
      erule is_str_accepted nonempty_str_accepted str_of_length_accepted one_of_literal_accepted
        TextInputType_accepted TextOutputFormat_accepted nullable_str_accepted is_int_accepted
        nullable_int_accepted nullable_float_accepted TextOutputLanguage_accepted
        TextVisibility_accepted)+

lemma TextSessionRef_conforms_accepted:
  assumes "TextSessionRef_conforms v"
  shows "\<not> isl (TextSessionRef_model_validate v)"
proof -
  from assms obtain d where v: "v = PDict d"
    by (cases v) (auto simp: TextSessionRef_conforms_def)
  show ?thesis
    using assms unfolding v TextSessionRef_conforms_def TextSessionRef_model_validate_def
    by (auto simp: isl_forbid_extra isl_TextSessionRef_validate_fields only_keys_iff
        TextSessionRef_fields_def dest: conforming_field_accepted)
qed

lemma TextProcessingOptions_conforms_accepted:
  assumes "TextProcessingOptions_conforms v"
  shows "\<not> isl (TextProcessingOptions_model_validate v)"
proof -
  from assms obtain d where v: "v = PDict d"
    by (cases v) (auto simp: TextProcessingOptions_conforms_def)
  show ?thesis
    using assms
    unfolding v TextProcessingOptions_conforms_def TextProcessingOptions_model_validate_def
    by (auto simp: isl_forbid_extra isl_TextProcessingOptions_validate_fields only_keys_iff
        TextProcessingOptions_fields_def dest: conforming_field_accepted)
qed

lemma TextTrigger_conforms_accepted:
  assumes "TextTrigger_conforms v"
  shows "\<not> isl (TextTrigger_model_validate v)"
proof -
  from assms obtain d where v: "v = PDict d"
    by (cases v) (auto simp: TextTrigger_conforms_def)
  have nested:
    "present m k TextSessionRef_conforms \<Longrightarrow> \<not> isl (required m k TextSessionRef_model_validate)"
    "present m k TextProcessingOptions_conforms
       \<Longrightarrow> \<not> isl (required m k TextProcessingOptions_model_validate)" for m k
    by (erule present_required,
        erule TextSessionRef_conforms_accepted TextProcessingOptions_conforms_accepted)+
  show ?thesis
    using assms unfolding v TextTrigger_conforms_def TextTrigger_model_validate_def
    by (auto simp: isl_forbid_extra isl_TextTrigger_validate_fields only_keys_iff
        TextTrigger_fields_def dest: conforming_field_accepted nested)
qed

lemma TextGenerateResponse_conforms_accepted:
  assumes "TextGenerateResponse_conforms v"
  shows "\<not> isl (TextGenerateResponse_model_validate L v)"
proof -
  from assms obtain d where v: "v = PDict d"
    by (cases v) (auto simp: TextGenerateResponse_conforms_def)
  show ?thesis
    using assms
    unfolding v TextGenerateResponse_conforms_def TextGenerateResponse_model_validate_def
    by (auto simp: isl_forbid_extra isl_TextGenerateResponse_validate_fields only_keys_iff
        TextGenerateResponse_fields_def dest: conforming_field_accepted)
qed

lemma PersistentSession_conforms_accepted:
  assumes "PersistentSession_conforms v"
  shows "\<not> isl (PersistentSession_model_validate L v)"
proof -
  from assms obtain d where v: "v = PDict d"
    by (cases v) (auto simp: PersistentSession_conforms_def)
  show ?thesis
    using assms
    unfolding v PersistentSession_conforms_def PersistentSession_model_validate_def
    by (auto simp: PersistentSession_validate_fields_def isl_ap
        dest: conforming_field_accepted)
qed

subsection \<open>The round trip\<close>

lemma model_validate_Inr_PDict:
  "TextSessionRef_model_validate v = Inr a \<Longrightarrow> \<exists>d. v = PDict d"
  "TextProcessingOptions_model_validate v = Inr b \<Longrightarrow> \<exists>d. v = PDict d"
  "TextTrigger_model_validate v = Inr c \<Longrightarrow> \<exists>d. v = PDict d"
  "TextGenerateResponse_model_validate L v = Inr e \<Longrightarrow> \<exists>d. v = PDict d"
  "PersistentSession_model_validate L v = Inr f \<Longrightarrow> \<exists>d. v = PDict d"
  by (cases v; simp add: TextSessionRef_model_validate_def
      TextProcessingOptions_model_validate_def TextTrigger_model_validate_def
      TextGenerateResponse_model_validate_def PersistentSession_model_validate_def fail_def)+

lemma optional_dump_optional:
  "optional validate_str (dump_optional PStr os) = Inr os"
  "optional (validate_int L) (dump_optional PInt oi) = Inr oi"
  "optional (validate_float L) (dump_optional PFloat orat) = Inr orat"
  by (cases os; cases oi; cases orat;
      simp add: optional_def dump_optional_def validate_int_def validate_float_def)+

lemma TextInputType_round_trip:
  "validate_enum TextInputType_value TextInputType_members (PStr (TextInputType_value a)) = Inr a"
  by (cases a) (simp_all add: validate_enum_def TextInputType_members_def)

lemma TextOutputFormat_round_trip:
  "validate_enum TextOutputFormat_value TextOutputFormat_members (PStr (TextOutputFormat_value a))
     = Inr a"
  by (cases a) (simp_all add: validate_enum_def TextOutputFormat_members_def)

lemma TextOutputLanguage_round_trip:
  "validate_enum TextOutputLanguage_value TextOutputLanguage_members
     (PStr (TextOutputLanguage_value a)) = Inr a"
  by (cases a) (simp_all add: validate_enum_def TextOutputLanguage_members_def)

lemma TextVisibility_round_trip:
  "validate_enum TextVisibility_value TextVisibility_members (PStr (TextVisibility_value a))
     = Inr a"
  by (cases a) (simp_all add: validate_enum_def TextVisibility_members_def)

lemmas validate_enum_value =
  TextInputType_round_trip TextOutputFormat_round_trip TextOutputLanguage_round_trip
  TextVisibility_round_trip

lemma TextSessionRef_round_trip:
  assumes "TextSessionRef_model_validate v = Inr x"
  shows "TextSessionRef_model_validate (TextSessionRef_model_dump x) = Inr x"
proof -
  from assms obtain d where v: "v = PDict d"
    using model_validate_Inr_PDict(1) by blast
  from assms have "1 \<le> length (TextSessionRef.org_id x)"
    and "1 \<le> length (TextSessionRef.user_id x)"
    and "1 \<le> length (TextSessionRef.session_id x)"
    and "50 \<le> length (content x)" and "length (content x) \<le> 50000"
    by (auto simp: v TextSessionRef_model_validate_def forbid_extra_Inr_iff
        TextSessionRef_validate_fields_iff required_Inr_iff validate_str_len_Inr_iff)
  then show ?thesis
    by (simp add: TextSessionRef_model_dump_def TextSessionRef_model_validate_def
        forbid_extra_Inr_iff TextSessionRef_fields_def TextSessionRef_validate_fields_iff
        required_Inr_iff with_default_Inr_iff validate_str_len_Inr_iff optional_dump_optional)
qed

lemma TextProcessingOptions_round_trip:
  "TextProcessingOptions_model_validate (TextProcessingOptions_model_dump x) = Inr x"
  by (simp add: TextProcessingOptions_model_dump_def TextProcessingOptions_model_validate_def
      forbid_extra_Inr_iff TextProcessingOptions_fields_def
      TextProcessingOptions_validate_fields_iff required_Inr_iff with_default_Inr_iff
      validate_enum_value)

lemma TextTrigger_round_trip:
  assumes "TextTrigger_model_validate v = Inr x"
  shows "TextTrigger_model_validate (TextTrigger_model_dump x) = Inr x"
proof -
  from assms obtain d where v: "v = PDict d"
    using model_validate_Inr_PDict(3) by blast
  from assms have f: "TextTrigger_validate_fields (map_of d) = Inr x"
    by (simp add: v TextTrigger_model_validate_def forbid_extra_Inr_iff)
  then have "TextTrigger.version x = ''1.0''" and "source x = ''mcp-generate''"
    unfolding TextTrigger_validate_fields_iff with_default_Inr_iff validate_literal_Inr_iff
    by auto
  moreover from f obtain u where "TextSessionRef_model_validate u = Inr (text_session x)"
    unfolding TextTrigger_validate_fields_iff required_Inr_iff by blast
  then have "TextSessionRef_model_validate (TextSessionRef_model_dump (text_session x))
      = Inr (text_session x)"
    by (rule TextSessionRef_round_trip)
  ultimately show ?thesis
    by (simp add: TextTrigger_model_dump_def TextTrigger_model_validate_def
        forbid_extra_Inr_iff TextTrigger_fields_def TextTrigger_validate_fields_iff
        required_Inr_iff with_default_Inr_iff validate_literal_Inr_iff validate_enum_value
        optional_dump_optional TextProcessingOptions_round_trip)
qed

lemma TextGenerateResponse_round_trip:
  assumes "TextGenerateResponse_model_validate L v = Inr x"
  shows "TextGenerateResponse_model_validate L (TextGenerateResponse_model_dump x) = Inr x"
proof -
  from assms obtain d where v: "v = PDict d"
    using model_validate_Inr_PDict(4) by blast
  from assms have "TextGenerateResponse.status x \<in> set [''accepted'', ''error'']"
    by (auto simp: v TextGenerateResponse_model_validate_def forbid_extra_Inr_iff
        TextGenerateResponse_validate_fields_iff required_Inr_iff validate_literal_Inr_iff)
  then show ?thesis
    by (simp add: TextGenerateResponse_model_dump_def TextGenerateResponse_model_validate_def
        forbid_extra_Inr_iff TextGenerateResponse_fields_def
        TextGenerateResponse_validate_fields_iff required_Inr_iff with_default_Inr_iff
        validate_literal_Inr_iff optional_dump_optional)
qed

lemma PersistentSession_round_trip:
  "PersistentSession_model_validate L (PersistentSession_model_dump x) = Inr x"
  by (simp add: PersistentSession_model_dump_def PersistentSession_model_validate_def
      PersistentSession_validate_fields_iff required_Inr_iff with_default_Inr_iff
      validate_int_PInt optional_dump_optional)

subsection \<open>What a conforming structure validates to\<close>

lemma canonical_required_str:
  "required m k validate_str = Inr s \<Longrightarrow> PStr s = get_or m k z"
  by (auto simp: required_Inr_iff validate_str_Inr_iff get_or_def)

lemma canonical_required_str_len:
  "required m k (validate_str_len lo hi) = Inr s \<Longrightarrow> PStr s = get_or m k z"
  by (auto simp: required_Inr_iff validate_str_len_Inr_iff get_or_def)

lemma canonical_required_literal:
  "required m k (validate_literal allowed) = Inr s \<Longrightarrow> PStr s = get_or m k z"
  by (auto simp: required_Inr_iff validate_literal_Inr_iff get_or_def)

lemma canonical_default_literal:
  "with_default m k (validate_literal allowed) s0 = Inr s \<Longrightarrow> PStr s = get_or m k (PStr s0)"
  by (auto simp: with_default_Inr_iff validate_literal_Inr_iff get_or_def)

lemma canonical_default_str:
  "with_default m k validate_str s0 = Inr s \<Longrightarrow> PStr s = get_or m k (PStr s0)"
  by (auto simp: with_default_Inr_iff validate_str_Inr_iff get_or_def)

lemma canonical_optional_str:
  "with_default m k (optional validate_str) None = Inr os
     \<Longrightarrow> dump_optional PStr os = get_or m k PNone"
proof -
  assume a: "with_default m k (optional validate_str) None = Inr os"
  show ?thesis
  proof (cases "m k")
    case None
    with a show ?thesis
      by (simp add: with_default_def get_or_def dump_optional_def)
  next
    case (Some v)
    with a have "optional validate_str v = Inr os"
      by (simp add: with_default_def at_loc_Inr_iff)
    then have "dump_optional PStr os = v"
      by (cases v) (auto simp: optional_def dump_optional_def fail_def)
    with Some show ?thesis
      by (simp add: get_or_def)
  qed
qed

lemma validate_enum_value_of:
  "validate_enum value_of members v = Inr e \<Longrightarrow> v = PStr (value_of e)"
  by (auto simp: validate_enum_Inr_iff find_Some_iff)

lemma canonical_required_enum:
  "required m k (validate_enum value_of members) = Inr e \<Longrightarrow> PStr (value_of e) = get_or m k z"
  by (auto simp: required_Inr_iff get_or_def dest: validate_enum_value_of)

lemma canonical_default_enum:
  "with_default m k (validate_enum value_of members) e0 = Inr e
     \<Longrightarrow> PStr (value_of e) = get_or m k (PStr (value_of e0))"
  by (auto simp: with_default_Inr_iff get_or_def dest: validate_enum_value_of)

lemma canonical_output_language:
  "with_default m k (validate_enum TextOutputLanguage_value TextOutputLanguage_members) AUTO
     = Inr e \<Longrightarrow> PStr (TextOutputLanguage_value e) = get_or m k (PStr ''auto'')"
  using canonical_default_enum [of m k TextOutputLanguage_value TextOutputLanguage_members AUTO e]
  by simp

lemma canonical_visibility:
  "with_default m k (validate_enum TextVisibility_value TextVisibility_members) PRIVATE
     = Inr e \<Longrightarrow> PStr (TextVisibility_value e) = get_or m k (PStr ''private'')"
  using canonical_default_enum [of m k TextVisibility_value TextVisibility_members PRIVATE e]
  by simp

lemma canonical_default_int:
  "with_default m k (validate_int L) i0 = Inr i \<Longrightarrow> absent_or m k is_int
     \<Longrightarrow> PInt i = get_or m k (PInt i0)"
  by (auto simp: with_default_Inr_iff get_or_def absent_or_def is_int_iff validate_int_def)

lemma canonical_optional_int:
  "with_default m k (optional (validate_int L)) None = Inr oi \<Longrightarrow> absent_or m k (nullable is_int)
     \<Longrightarrow> dump_optional PInt oi = get_or m k PNone"
  by (auto simp: with_default_Inr_iff get_or_def absent_or_def nullable_def is_int_iff
      validate_int_def optional_def dump_optional_def)

lemma canonical_optional_float:
  "with_default m k (optional (validate_float L)) None = Inr orat
     \<Longrightarrow> absent_or m k (nullable is_number)
     \<Longrightarrow> dump_optional PFloat orat = as_float (get_or m k PNone)"
  by (auto simp: with_default_Inr_iff get_or_def absent_or_def nullable_def is_number_iff
      validate_float_def optional_def dump_optional_def)

lemmas canonical_field =
  canonical_required_str canonical_required_str_len canonical_required_literal
  canonical_default_literal canonical_default_str canonical_optional_str
  canonical_required_enum canonical_output_language canonical_visibility

lemma TextSessionRef_dump_canonical:
  assumes "TextSessionRef_model_validate v = Inr x"
  shows "TextSessionRef_model_dump x = TextSessionRef_canonical v"
proof -
  from assms obtain d where v: "v = PDict d"
    using model_validate_Inr_PDict(1) by blast
  from assms have "TextSessionRef_validate_fields (map_of d) = Inr x"
    by (simp add: v TextSessionRef_model_validate_def forbid_extra_Inr_iff)
  then show ?thesis
    unfolding TextSessionRef_validate_fields_iff v
    by (simp add: TextSessionRef_model_dump_def TextSessionRef_canonical_def)
       (intro conjI; elim conjE; erule canonical_field)
qed

lemma TextProcessingOptions_dump_canonical:
  assumes "TextProcessingOptions_model_validate v = Inr x"
  shows "TextProcessingOptions_model_dump x = TextProcessingOptions_canonical v"
proof -
  from assms obtain d where v: "v = PDict d"
    using model_validate_Inr_PDict(2) by blast
  from assms have "TextProcessingOptions_validate_fields (map_of d) = Inr x"
    by (simp add: v TextProcessingOptions_model_validate_def forbid_extra_Inr_iff)
  then show ?thesis
    unfolding TextProcessingOptions_validate_fields_iff v
    by (simp add: TextProcessingOptions_model_dump_def TextProcessingOptions_canonical_def)
       (intro conjI; elim conjE; erule canonical_field)
qed

lemma canonical_text_session:
  "required m k TextSessionRef_model_validate = Inr a
     \<Longrightarrow> TextSessionRef_model_dump a = TextSessionRef_canonical (get_or m k z)"
  by (auto simp: required_Inr_iff get_or_def dest: TextSessionRef_dump_canonical)

lemma canonical_processing_options:
  "required m k TextProcessingOptions_model_validate = Inr a
     \<Longrightarrow> TextProcessingOptions_model_dump a = TextProcessingOptions_canonical (get_or m k z)"
  by (auto simp: required_Inr_iff get_or_def dest: TextProcessingOptions_dump_canonical)

lemma TextTrigger_dump_canonical:
  assumes "TextTrigger_model_validate v = Inr x"
  shows "TextTrigger_model_dump x = TextTrigger_canonical v"
proof -
  from assms obtain d where v: "v = PDict d"
    using model_validate_Inr_PDict(3) by blast
  from assms have "TextTrigger_validate_fields (map_of d) = Inr x"
    by (simp add: v TextTrigger_model_validate_def forbid_extra_Inr_iff)
  then show ?thesis
    unfolding TextTrigger_validate_fields_iff v
    by (simp add: TextTrigger_model_dump_def TextTrigger_canonical_def)
       (intro conjI; elim conjE;
        erule canonical_field canonical_text_session canonical_processing_options)
qed

lemma TextGenerateResponse_dump_canonical:
  assumes "TextGenerateResponse_conforms v"
    and "TextGenerateResponse_model_validate L v = Inr x"
  shows "TextGenerateResponse_model_dump x = TextGenerateResponse_canonical v"
proof -
  from assms(2) obtain d where v: "v = PDict d"
    using model_validate_Inr_PDict(4) by blast
  from assms(1) have c: "absent_or (map_of d) ''estimated_seconds'' (nullable is_int)"
    by (simp add: v TextGenerateResponse_conforms_def)
  from assms(2) have "TextGenerateResponse_validate_fields L (map_of d) = Inr x"
    by (simp add: v TextGenerateResponse_model_validate_def forbid_extra_Inr_iff)
  then show ?thesis
    using c unfolding TextGenerateResponse_validate_fields_iff v
    by (simp add: TextGenerateResponse_model_dump_def TextGenerateResponse_canonical_def)
       (intro conjI; elim conjE; (erule canonical_field | erule (1) canonical_optional_int))
qed

lemma PersistentSession_dump_canonical:
  assumes "PersistentSession_conforms v"
    and "PersistentSession_model_validate L v = Inr x"
  shows "PersistentSession_model_dump x = PersistentSession_canonical v"
proof -
  from assms(2) obtain d where v: "v = PDict d"
    using model_validate_Inr_PDict(5) by blast
  from assms(1) have c: "absent_or (map_of d) ''processing_time_seconds'' (nullable is_number)"
    "absent_or (map_of d) ''retry_count'' is_int" "absent_or (map_of d) ''version'' is_int"
    by (simp_all add: v PersistentSession_conforms_def)
  from assms(2) have "PersistentSession_validate_fields L (map_of d) = Inr x"
    by (simp add: v PersistentSession_model_validate_def)
  then show ?thesis
    using c unfolding PersistentSession_validate_fields_iff v
    by (simp add: PersistentSession_model_dump_def PersistentSession_canonical_def)
       (intro conjI; elim conjE;
        (erule canonical_field | erule (1) canonical_default_int
          | erule (1) canonical_optional_float))
qed

lemma accepted_is_valid:
  "TextSessionRef_model_validate v = Inr a \<Longrightarrow> TextSessionRef_valid a"
  "TextTrigger_model_validate v = Inr c \<Longrightarrow> TextTrigger_valid c"
  "TextGenerateResponse_model_validate L v = Inr e \<Longrightarrow> TextGenerateResponse_valid e"
proof -
  show ts: "TextSessionRef_valid a" if "TextSessionRef_model_validate v = Inr a" for v a
  proof -
    from that obtain d where "v = PDict d"
      using model_validate_Inr_PDict(1) by blast
    with that show ?thesis
      by (auto simp: TextSessionRef_valid_def TextSessionRef_model_validate_def
          forbid_extra_Inr_iff TextSessionRef_validate_fields_iff required_Inr_iff
          validate_str_len_Inr_iff)
  qed
  show "TextTrigger_valid c" if "TextTrigger_model_validate v = Inr c"
  proof -
    from that obtain d where v: "v = PDict d"
      using model_validate_Inr_PDict(3) by blast
    from that have f: "TextTrigger_validate_fields (map_of d) = Inr c"
      by (simp add: v TextTrigger_model_validate_def forbid_extra_Inr_iff)
    then have "TextTrigger.version c = ''1.0''" and "source c = ''mcp-generate''"
      unfolding TextTrigger_validate_fields_iff with_default_Inr_iff validate_literal_Inr_iff
      by auto
    moreover from f obtain u where "TextSessionRef_model_validate u = Inr (text_session c)"
      unfolding TextTrigger_validate_fields_iff required_Inr_iff by blast
    then have "TextSessionRef_valid (text_session c)"
      by (rule ts)
    ultimately show ?thesis
      by (simp add: TextTrigger_valid_def)
  qed
  show "TextGenerateResponse_valid e" if "TextGenerateResponse_model_validate L v = Inr e"
  proof -
    from that obtain d where "v = PDict d"
      using model_validate_Inr_PDict(4) by blast
    with that show ?thesis
      by (auto simp: TextGenerateResponse_valid_def TextGenerateResponse_model_validate_def
          forbid_extra_Inr_iff TextGenerateResponse_validate_fields_iff required_Inr_iff
          validate_literal_Inr_iff)
  qed
qed

lemma TextSessionRef_valid_round_trip:
  assumes "TextSessionRef_valid x"
  shows "TextSessionRef_model_validate (TextSessionRef_model_dump x) = Inr x"
  using assms
  by (simp add: TextSessionRef_valid_def TextSessionRef_model_dump_def
      TextSessionRef_model_validate_def
      forbid_extra_Inr_iff TextSessionRef_fields_def TextSessionRef_validate_fields_iff
      required_Inr_iff with_default_Inr_iff validate_str_len_Inr_iff optional_dump_optional)

lemma TextTrigger_valid_round_trip:
  assumes "TextTrigger_valid x"
  shows "TextTrigger_model_validate (TextTrigger_model_dump x) = Inr x"
  using assms TextSessionRef_valid_round_trip [of "text_session x"]
  by (simp add: TextTrigger_valid_def TextTrigger_model_dump_def TextTrigger_model_validate_def
      forbid_extra_Inr_iff TextTrigger_fields_def TextTrigger_validate_fields_iff
      required_Inr_iff with_default_Inr_iff validate_literal_Inr_iff validate_enum_value
      optional_dump_optional TextProcessingOptions_round_trip)

lemma TextGenerateResponse_valid_round_trip:
  assumes "TextGenerateResponse_valid x"
  shows "TextGenerateResponse_model_validate L (TextGenerateResponse_model_dump x) = Inr x"
  using assms
  by (auto simp: TextGenerateResponse_valid_def TextGenerateResponse_model_dump_def
      TextGenerateResponse_model_validate_def
      forbid_extra_Inr_iff TextGenerateResponse_fields_def
      TextGenerateResponse_validate_fields_iff required_Inr_iff with_default_Inr_iff
      validate_literal_Inr_iff optional_dump_optional)

lemma TextSessionRef_conforming:
  assumes "TextSessionRef_conforms v"
  shows "(\<exists>x. TextSessionRef_model_validate v = Inr x \<and>
            TextSessionRef_model_dump x = TextSessionRef_canonical v) \<and>
         map_sum id TextSessionRef_model_dump (TextSessionRef_model_validate (TextSessionRef_canonical v))
           = Inr (TextSessionRef_canonical v)"
proof -
  from assms have "\<not> isl (TextSessionRef_model_validate v)"
    by (rule TextSessionRef_conforms_accepted)
  then obtain x where x: "TextSessionRef_model_validate v = Inr x"
    by (cases "TextSessionRef_model_validate v") simp_all
  have c: "TextSessionRef_model_dump x = TextSessionRef_canonical v"
    by (rule TextSessionRef_dump_canonical [OF x])
  have r: "TextSessionRef_model_validate (TextSessionRef_model_dump x) = Inr x"
    by (rule TextSessionRef_round_trip [OF x])
  have "map_sum id TextSessionRef_model_dump (TextSessionRef_model_validate (TextSessionRef_model_dump x))
      = Inr (TextSessionRef_model_dump x)"
    unfolding r by simp
  then have "map_sum id TextSessionRef_model_dump (TextSessionRef_model_validate (TextSessionRef_canonical v))
      = Inr (TextSessionRef_canonical v)"
    unfolding c .
  with x c show ?thesis
    by blast
qed

lemma TextProcessingOptions_conforming:
  assumes "TextProcessingOptions_conforms v"
  shows "(\<exists>x. TextProcessingOptions_model_validate v = Inr x \<and>
            TextProcessingOptions_model_dump x = TextProcessingOptions_canonical v) \<and>
         map_sum id TextProcessingOptions_model_dump (TextProcessingOptions_model_validate (TextProcessingOptions_canonical v))
           = Inr (TextProcessingOptions_canonical v)"
proof -
  from assms have "\<not> isl (TextProcessingOptions_model_validate v)"
    by (rule TextProcessingOptions_conforms_accepted)
  then obtain x where x: "TextProcessingOptions_model_validate v = Inr x"
    by (cases "TextProcessingOptions_model_validate v") simp_all
  have c: "TextProcessingOptions_model_dump x = TextProcessingOptions_canonical v"
    by (rule TextProcessingOptions_dump_canonical [OF x])
  have r: "TextProcessingOptions_model_validate (TextProcessingOptions_model_dump x) = Inr x"
    by (rule TextProcessingOptions_round_trip)
  have "map_sum id TextProcessingOptions_model_dump (TextProcessingOptions_model_validate (TextProcessingOptions_model_dump x))
      = Inr (TextProcessingOptions_model_dump x)"
    unfolding r by simp
  then have "map_sum id TextProcessingOptions_model_dump (TextProcessingOptions_model_validate (TextProcessingOptions_canonical v))
      = Inr (TextProcessingOptions_canonical v)"
    unfolding c .
  with x c show ?thesis
    by blast
qed

lemma TextTrigger_conforming:
  assumes "TextTrigger_conforms v"
  shows "(\<exists>x. TextTrigger_model_validate v = Inr x \<and>
            TextTrigger_model_dump x = TextTrigger_canonical v) \<and>
         map_sum id TextTrigger_model_dump (TextTrigger_model_validate (TextTrigger_canonical v))
           = Inr (TextTrigger_canonical v)"
proof -
  from assms have "\<not> isl (TextTrigger_model_validate v)"
    by (rule TextTrigger_conforms_accepted)
  then obtain x where x: "TextTrigger_model_validate v = Inr x"
    by (cases "TextTrigger_model_validate v") simp_all
  have c: "TextTrigger_model_dump x = TextTrigger_canonical v"
    by (rule TextTrigger_dump_canonical [OF x])
  have r: "TextTrigger_model_validate (TextTrigger_model_dump x) = Inr x"
    by (rule TextTrigger_round_trip [OF x])
  have "map_sum id TextTrigger_model_dump (TextTrigger_model_validate (TextTrigger_model_dump x))
      = Inr (TextTrigger_model_dump x)"
    unfolding r by simp
  then have "map_sum id TextTrigger_model_dump (TextTrigger_model_validate (TextTrigger_canonical v))
      = Inr (TextTrigger_canonical v)"
    unfolding c .
  with x c show ?thesis
    by blast
qed

lemma TextGenerateResponse_conforming:
  assumes "TextGenerateResponse_conforms v"
  shows "(\<exists>x. TextGenerateResponse_model_validate L v = Inr x \<and>
            TextGenerateResponse_model_dump x = TextGenerateResponse_canonical v) \<and>
         map_sum id TextGenerateResponse_model_dump (TextGenerateResponse_model_validate L (TextGenerateResponse_canonical v))
           = Inr (TextGenerateResponse_canonical v)"
proof -
  from assms have "\<not> isl (TextGenerateResponse_model_validate L v)"
    by (rule TextGenerateResponse_conforms_accepted)
  then obtain x where x: "TextGenerateResponse_model_validate L v = Inr x"
    by (cases "TextGenerateResponse_model_validate L v") simp_all
  have c: "TextGenerateResponse_model_dump x = TextGenerateResponse_canonical v"
    by (rule TextGenerateResponse_dump_canonical [OF assms x])
  have r: "TextGenerateResponse_model_validate L (TextGenerateResponse_model_dump x) = Inr x"
    by (rule TextGenerateResponse_round_trip [OF x])
  have "map_sum id TextGenerateResponse_model_dump (TextGenerateResponse_model_validate L (TextGenerateResponse_model_dump x))
      = Inr (TextGenerateResponse_model_dump x)"
    unfolding r by simp
  then have "map_sum id TextGenerateResponse_model_dump (TextGenerateResponse_model_validate L (TextGenerateResponse_canonical v))
      = Inr (TextGenerateResponse_canonical v)"
    unfolding c .
  with x c show ?thesis
    by blast
qed

lemma PersistentSession_conforming:
  assumes "PersistentSession_conforms v"
  shows "(\<exists>x. PersistentSession_model_validate L v = Inr x \<and>
            PersistentSession_model_dump x = PersistentSession_canonical v) \<and>
         map_sum id PersistentSession_model_dump (PersistentSession_model_validate L (PersistentSession_canonical v))
           = Inr (PersistentSession_canonical v)"
proof -
  from assms have "\<not> isl (PersistentSession_model_validate L v)"
    by (rule PersistentSession_conforms_accepted)
  then obtain x where x: "PersistentSession_model_validate L v = Inr x"
    by (cases "PersistentSession_model_validate L v") simp_all
  have c: "PersistentSession_model_dump x = PersistentSession_canonical v"
    by (rule PersistentSession_dump_canonical [OF assms x])
  have r: "PersistentSession_model_validate L (PersistentSession_model_dump x) = Inr x"
    by (rule PersistentSession_round_trip)
  have "map_sum id PersistentSession_model_dump (PersistentSession_model_validate L (PersistentSession_model_dump x))
      = Inr (PersistentSession_model_dump x)"
    unfolding r by simp
  then have "map_sum id PersistentSession_model_dump (PersistentSession_model_validate L (PersistentSession_canonical v))
      = Inr (PersistentSession_canonical v)"
    unfolding c .
  with x c show ?thesis
    by blast
qed

subsection \<open>The round trip of the five schemas\<close>

lemma full_examples_accepted:
  "TextSessionRef_model_validate full_text_session = Inr full_text_session_record"
  "TextProcessingOptions_model_validate full_processing_options
     = Inr full_processing_options_record"
  "TextTrigger_model_validate full_trigger = Inr full_trigger_record"
  "TextGenerateResponse_model_validate L full_response = Inr full_response_record"
  "PersistentSession_model_validate L (PDict completed_session) = Inr completed_session_record"
proof -
  show s: "TextSessionRef_model_validate full_text_session = Inr full_text_session_record"
    by (simp add: full_text_session_def full_text_session_record_def
        TextSessionRef_model_validate_def forbid_extra_Inr_iff
        TextSessionRef_fields_def TextSessionRef_validate_fields_iff required_Inr_iff
        with_default_Inr_iff validate_str_len_Inr_iff optional_def)
  show p: "TextProcessingOptions_model_validate full_processing_options
      = Inr full_processing_options_record"
    by (simp add: full_processing_options_def full_processing_options_record_def
        TextProcessingOptions_model_validate_def forbid_extra_Inr_iff
        TextProcessingOptions_fields_def TextProcessingOptions_validate_fields_iff
        required_Inr_iff with_default_Inr_iff validate_enum_Inr_iff
        TextInputType_members_def TextOutputFormat_members_def TextOutputLanguage_members_def)
  show "TextTrigger_model_validate full_trigger = Inr full_trigger_record"
    by (simp add: full_trigger_def full_trigger_record_def TextTrigger_model_validate_def
        forbid_extra_Inr_iff TextTrigger_fields_def TextTrigger_validate_fields_iff
        required_Inr_iff with_default_Inr_iff s p validate_enum_Inr_iff
        TextVisibility_members_def optional_def)
  show "TextGenerateResponse_model_validate L full_response = Inr full_response_record"
    by (simp add: full_response_def full_response_record_def
        TextGenerateResponse_model_validate_def forbid_extra_Inr_iff
        TextGenerateResponse_fields_def TextGenerateResponse_validate_fields_iff
        required_Inr_iff with_default_Inr_iff validate_literal_Inr_iff optional_def
        validate_int_def)
  show "PersistentSession_model_validate L (PDict completed_session)
      = Inr completed_session_record"
    by (simp add: PersistentSession_model_validate_def completed_session_def
        completed_session_record_def PersistentSession_validate_fields_iff required_Inr_iff
        with_default_Inr_iff optional_def validate_int_def validate_float_def)
qed

lemma full_examples_conform:
  "TextSessionRef_conforms full_text_session"
  "TextProcessingOptions_conforms full_processing_options"
  "TextTrigger_conforms full_trigger"
  "TextGenerateResponse_conforms full_response"
  "PersistentSession_conforms (PDict completed_session)"
  by (simp_all add: TextSessionRef_conforms_def TextProcessingOptions_conforms_def
      TextTrigger_conforms_def TextGenerateResponse_conforms_def PersistentSession_conforms_def
      full_text_session_def full_processing_options_def full_trigger_def
      full_response_def completed_session_def only_keys_def present_def absent_or_def
      nullable_def)

text \<open>
  Claim C1. For each of the five schemas, a structure whose fields all satisfy the
  declared constraints is accepted by validate-and-construct, and serializing the
  instance gives the canonical structure of the input: every supplied value kept, every
  omitted field at its default. Serialize after validate-and-construct is the identity
  on that canonical structure. Every instance that validate-and-construct returns
  satisfies the constraints of its schema, and for every instance that does, validating
  its serialization returns the same instance.
\<close>

theorem validate_and_serialize_round_trip:
  "(TextSessionRef_conforms v \<longrightarrow>
      (\<exists>x. TextSessionRef_model_validate v = Inr x \<and>
           TextSessionRef_model_dump x = TextSessionRef_canonical v) \<and>
      map_sum id TextSessionRef_model_dump
          (TextSessionRef_model_validate (TextSessionRef_canonical v))
        = Inr (TextSessionRef_canonical v)) \<and>
   (TextSessionRef_model_validate v = Inr a \<longrightarrow> TextSessionRef_valid a) \<and>
   (TextSessionRef_valid a \<longrightarrow>
      round_trips TextSessionRef_model_validate TextSessionRef_model_dump a) \<and>
   (TextProcessingOptions_conforms v \<longrightarrow>
      (\<exists>x. TextProcessingOptions_model_validate v = Inr x \<and>
           TextProcessingOptions_model_dump x = TextProcessingOptions_canonical v) \<and>
      map_sum id TextProcessingOptions_model_dump
          (TextProcessingOptions_model_validate (TextProcessingOptions_canonical v))
        = Inr (TextProcessingOptions_canonical v)) \<and>
   round_trips TextProcessingOptions_model_validate TextProcessingOptions_model_dump b \<and>
   (TextTrigger_conforms v \<longrightarrow>
      (\<exists>x. TextTrigger_model_validate v = Inr x \<and>
           TextTrigger_model_dump x = TextTrigger_canonical v) \<and>
      map_sum id TextTrigger_model_dump
          (TextTrigger_model_validate (TextTrigger_canonical v))
        = Inr (TextTrigger_canonical v)) \<and>
   (TextTrigger_model_validate v = Inr c \<longrightarrow> TextTrigger_valid c) \<and>
   (TextTrigger_valid c \<longrightarrow>
      round_trips TextTrigger_model_validate TextTrigger_model_dump c) \<and>
   (TextGenerateResponse_conforms v \<longrightarrow>
      (\<exists>x. TextGenerateResponse_model_validate L v = Inr x \<and>
           TextGenerateResponse_model_dump x = TextGenerateResponse_canonical v) \<and>
      map_sum id TextGenerateResponse_model_dump
          (TextGenerateResponse_model_validate L (TextGenerateResponse_canonical v))
        = Inr (TextGenerateResponse_canonical v)) \<and>
   (TextGenerateResponse_model_validate L v = Inr e \<longrightarrow> TextGenerateResponse_valid e) \<and>
   (TextGenerateResponse_valid e \<longrightarrow>
      round_trips (TextGenerateResponse_model_validate L) TextGenerateResponse_model_dump e) \<and>
   (PersistentSession_conforms v \<longrightarrow>
      (\<exists>x. PersistentSession_model_validate L v = Inr x \<and>
           PersistentSession_model_dump x = PersistentSession_canonical v) \<and>
      map_sum id PersistentSession_model_dump
          (PersistentSession_model_validate L (PersistentSession_canonical v))
        = Inr (PersistentSession_canonical v)) \<and>
   round_trips (PersistentSession_model_validate L) PersistentSession_model_dump f"
proof (intro conjI impI)
  show "round_trips TextProcessingOptions_model_validate TextProcessingOptions_model_dump b"
    by (simp add: round_trips_def TextProcessingOptions_round_trip)
  show "round_trips (PersistentSession_model_validate L) PersistentSession_model_dump f"
    by (simp add: round_trips_def PersistentSession_round_trip)
  show "round_trips TextSessionRef_model_validate TextSessionRef_model_dump a"
    if "TextSessionRef_valid a"
    using that by (simp add: round_trips_def TextSessionRef_valid_round_trip)
  show "round_trips TextTrigger_model_validate TextTrigger_model_dump c"
    if "TextTrigger_valid c"
    using that by (simp add: round_trips_def TextTrigger_valid_round_trip)
  show "round_trips (TextGenerateResponse_model_validate L) TextGenerateResponse_model_dump e"
    if "TextGenerateResponse_valid e"
    using that by (simp add: round_trips_def TextGenerateResponse_valid_round_trip)
  show "TextSessionRef_valid a" if "TextSessionRef_model_validate v = Inr a"
    using that by (rule accepted_is_valid)
  show "TextTrigger_valid c" if "TextTrigger_model_validate v = Inr c"
    using that by (rule accepted_is_valid)
  show "TextGenerateResponse_valid e" if "TextGenerateResponse_model_validate L v = Inr e"
    using that by (rule accepted_is_valid)
  show "\<exists>x. TextSessionRef_model_validate v = Inr x \<and>
      TextSessionRef_model_dump x = TextSessionRef_canonical v"
    if "TextSessionRef_conforms v"
    using TextSessionRef_conforming [OF that] by (rule conjunct1)
  show "map_sum id TextSessionRef_model_dump
      (TextSessionRef_model_validate (TextSessionRef_canonical v))
      = Inr (TextSessionRef_canonical v)"
    if "TextSessionRef_conforms v"
    using TextSessionRef_conforming [OF that] by (rule conjunct2)
  show "\<exists>x. TextProcessingOptions_model_validate v = Inr x \<and>
      TextProcessingOptions_model_dump x = TextProcessingOptions_canonical v"
    if "TextProcessingOptions_conforms v"
    using TextProcessingOptions_conforming [OF that] by (rule conjunct1)
  show "map_sum id TextProcessingOptions_model_dump
      (TextProcessingOptions_model_validate (TextProcessingOptions_canonical v))
      = Inr (TextProcessingOptions_canonical v)"
    if "TextProcessingOptions_conforms v"
    using TextProcessingOptions_conforming [OF that] by (rule conjunct2)
  show "\<exists>x. TextTrigger_model_validate v = Inr x \<and>
      TextTrigger_model_dump x = TextTrigger_canonical v"
    if "TextTrigger_conforms v"
    using TextTrigger_conforming [OF that] by (rule conjunct1)
  show "map_sum id TextTrigger_model_dump
      (TextTrigger_model_validate (TextTrigger_canonical v))
      = Inr (TextTrigger_canonical v)"
    if "TextTrigger_conforms v"
    using TextTrigger_conforming [OF that] by (rule conjunct2)
  show "\<exists>x. TextGenerateResponse_model_validate L v = Inr x \<and>
      TextGenerateResponse_model_dump x = TextGenerateResponse_canonical v"
    if "TextGenerateResponse_conforms v"
    using TextGenerateResponse_conforming [OF that] by (rule conjunct1)
  show "map_sum id TextGenerateResponse_model_dump
      (TextGenerateResponse_model_validate L (TextGenerateResponse_canonical v))
      = Inr (TextGenerateResponse_canonical v)"
    if "TextGenerateResponse_conforms v"
    using TextGenerateResponse_conforming [OF that] by (rule conjunct2)
  show "\<exists>x. PersistentSession_model_validate L v = Inr x \<and>
      PersistentSession_model_dump x = PersistentSession_canonical v"
    if "PersistentSession_conforms v"
    using PersistentSession_conforming [OF that] by (rule conjunct1)
  show "map_sum id PersistentSession_model_dump
      (PersistentSession_model_validate L (PersistentSession_canonical v))
      = Inr (PersistentSession_canonical v)"
    if "PersistentSession_conforms v"
    using PersistentSession_conforming [OF that] by (rule conjunct2)
qed

theorem validate_and_serialize_round_trip_witness:
  "TextSessionRef_conforms full_text_session \<and>
   TextSessionRef_model_validate full_text_session = Inr full_text_session_record \<and>
   TextSessionRef_model_dump full_text_session_record
     = TextSessionRef_canonical full_text_session \<and>
   TextSessionRef_valid full_text_session_record \<and>
   round_trips TextSessionRef_model_validate TextSessionRef_model_dump
     full_text_session_record \<and>
   TextProcessingOptions_conforms full_processing_options \<and>
   TextProcessingOptions_model_validate full_processing_options
     = Inr full_processing_options_record \<and>
   TextProcessingOptions_model_dump full_processing_options_record
     = TextProcessingOptions_canonical full_processing_options \<and>
   TextTrigger_conforms full_trigger \<and>
   TextTrigger_model_validate full_trigger = Inr full_trigger_record \<and>
   TextTrigger_model_dump full_trigger_record = TextTrigger_canonical full_trigger \<and>
   TextTrigger_valid full_trigger_record \<and>
   round_trips TextTrigger_model_validate TextTrigger_model_dump full_trigger_record \<and>
   TextGenerateResponse_conforms full_response \<and>
   TextGenerateResponse_model_validate exact_only full_response = Inr full_response_record \<and>
   TextGenerateResponse_model_dump full_response_record
     = TextGenerateResponse_canonical full_response \<and>
   TextGenerateResponse_valid full_response_record \<and>
   round_trips (TextGenerateResponse_model_validate exact_only) TextGenerateResponse_model_dump
     full_response_record \<and>
   PersistentSession_conforms (PDict completed_session) \<and>
   PersistentSession_model_validate exact_only (PDict completed_session)
     = Inr completed_session_record \<and>
   PersistentSession_model_dump completed_session_record
     = PersistentSession_canonical (PDict completed_session)"
proof -
  note T = validate_and_serialize_round_trip
    [where a = full_text_session_record and b = full_processing_options_record
       and c = full_trigger_record and e = full_response_record
       and f = completed_session_record and L = exact_only]
  have "TextSessionRef_model_dump full_text_session_record
      = TextSessionRef_canonical full_text_session"
    using T [where v = full_text_session, THEN conjunct1, rule_format, OF full_examples_conform(1)]
      full_examples_accepted(1)
    by simp
  moreover have v1: "TextSessionRef_valid full_text_session_record"
    using T [where v = full_text_session, THEN conjunct2, THEN conjunct1, rule_format, OF full_examples_accepted(1)] .
  moreover have "round_trips TextSessionRef_model_validate TextSessionRef_model_dump
      full_text_session_record"
    using T [THEN conjunct2, THEN conjunct2, THEN conjunct1, rule_format, OF v1] .
  moreover have "TextProcessingOptions_model_dump full_processing_options_record
      = TextProcessingOptions_canonical full_processing_options"
    using T [where v = full_processing_options, THEN conjunct2, THEN conjunct2, THEN conjunct2, THEN conjunct1, rule_format, OF full_examples_conform(2)]
      full_examples_accepted(2)
    by simp
  moreover have "TextTrigger_model_dump full_trigger_record = TextTrigger_canonical full_trigger"
    using T [where v = full_trigger, THEN conjunct2, THEN conjunct2, THEN conjunct2, THEN conjunct2, THEN conjunct2, THEN conjunct1, rule_format, OF full_examples_conform(3)]
      full_examples_accepted(3)
    by simp
  moreover have v3: "TextTrigger_valid full_trigger_record"
    using T [where v = full_trigger, THEN conjunct2, THEN conjunct2, THEN conjunct2, THEN conjunct2, THEN conjunct2, THEN conjunct2, THEN conjunct1, rule_format, OF full_examples_accepted(3)] .
  moreover have "round_trips TextTrigger_model_validate TextTrigger_model_dump
      full_trigger_record"
    using T [THEN conjunct2, THEN conjunct2, THEN conjunct2, THEN conjunct2, THEN conjunct2, THEN conjunct2, THEN conjunct2, THEN conjunct1, rule_format, OF v3] .
  moreover have "TextGenerateResponse_model_dump full_response_record
      = TextGenerateResponse_canonical full_response"
    using T [where v = full_response, THEN conjunct2, THEN conjunct2, THEN conjunct2, THEN conjunct2, THEN conjunct2, THEN conjunct2, THEN conjunct2, THEN conjunct2, THEN conjunct1, rule_format, OF full_examples_conform(4)]
      full_examples_accepted(4) [of exact_only]
    by simp
  moreover have v4: "TextGenerateResponse_valid full_response_record"
    using T [where v = full_response, THEN conjunct2, THEN conjunct2, THEN conjunct2, THEN conjunct2, THEN conjunct2, THEN conjunct2, THEN conjunct2, THEN conjunct2, THEN conjunct2, THEN conjunct1, rule_format, OF full_examples_accepted(4) [of exact_only]] .
  moreover have "round_trips (TextGenerateResponse_model_validate exact_only)
      TextGenerateResponse_model_dump full_response_record"
    using T [THEN conjunct2, THEN conjunct2, THEN conjunct2, THEN conjunct2, THEN conjunct2, THEN conjunct2, THEN conjunct2, THEN conjunct2, THEN conjunct2, THEN conjunct2, THEN conjunct1, rule_format, OF v4] .
  moreover have "PersistentSession_model_dump completed_session_record
      = PersistentSession_canonical (PDict completed_session)"
    using T [where v = "PDict completed_session", THEN conjunct2, THEN conjunct2, THEN conjunct2, THEN conjunct2, THEN conjunct2, THEN conjunct2, THEN conjunct2, THEN conjunct2, THEN conjunct2, THEN conjunct2, THEN conjunct2, THEN conjunct1, rule_format, OF full_examples_conform(5)]
      full_examples_accepted(5) [of exact_only]
    by simp
  ultimately show ?thesis
    using full_examples_conform full_examples_accepted(1-3)
      full_examples_accepted(4,5) [of exact_only]
    by simp
qed

end
